theory Spec2Isabelle
  imports Complex_Main
begin

section \<open>Metavoxel edit messages (MetavoxelMessages.cpp)\<close>

text \<open>
  The source file MetavoxelMessages.cpp is present in two revisions: the one that
  carries the heightfield and material edits (lines 1-203 of part_001) and the one
  that carries the spanner update visitor and the set-spanner edit (lines 204-425).
  Functions that differ between the two are embedded once per revision; the revision
  with the update visitor gets the suffix \<open>_rev\<close>.

  A \<open>float\<close> that the data holds (a coordinate, a size, a granularity, a radius) is
  embedded as the \<^typ>\<open>real\<close> it stands for: a finite binary32 value, zero standing
  for both signed zeros. Comparisons of such values are exact. The float arithmetic of
  the sources (the sums, differences, products and quotients of lines 49-55, 157-161
  and 328-331) is binary32 arithmetic: every operation rounds its exact result to the
  nearest binary32 value, ties to even, overflows to an infinity and yields NaN when it
  is invalid; its results have the type \<open>float32\<close>. A literal stands for the binary32
  value it denotes, so \<open>1.1f\<close> is 9227469/8388608. The C library's \<open>logf\<close> and the
  conversion of a float outside the range of \<open>int\<close> are parameters.

  Classes that the edits use and that are not among the sources (Box, MetavoxelInfo,
  MetavoxelNode, MetavoxelData) are modelled from the specification; each such
  definition says so, and they compute with exact reals. The virtual methods of Spanner
  and the AttributeRegistry are parameters.
\<close>

subsection \<open>Binary32 arithmetic\<close>

text \<open>
  A binary32 value: a finite number, an infinity or NaN. \<open>Finite x\<close> is meant for an
  \<open>x\<close> that binary32 represents; the operations below return such values when they
  are given such values.
\<close>

datatype float32 = Finite real | PlusInfinity | MinusInfinity | NaN

text \<open>
  The spacing of the binary32 values around a magnitude \<open>y\<close>: 2^-149 below 2^-125
  (the subnormal numbers and the first binade), doubling from binade to binade, and
  2^104 from 2^127 on. The search starts at 2^-149 and doubles the spacing while
  \<open>y\<close> needs more than 24 bits of it.
\<close>

fun quantumSearch :: "nat \<Rightarrow> real \<Rightarrow> real \<Rightarrow> real" where
  "quantumSearch 0 q y = q"
| "quantumSearch (Suc n) q y = (if y < 16777216 * q then q else quantumSearch n (2 * q) y)"

definition float32_quantum :: "real \<Rightarrow> real" where
  "float32_quantum x = quantumSearch 253 (1 / 2 ^ 149) \<bar>x\<bar>"

text \<open>The nearest integer, a tie going to the even one.\<close>

definition roundTiesToEven :: "real \<Rightarrow> int" where
  "roundTiesToEven y =
     (if y - of_int \<lfloor>y\<rfloor> < 1 / 2 then \<lfloor>y\<rfloor>
      else if y - of_int \<lfloor>y\<rfloor> > 1 / 2 then \<lfloor>y\<rfloor> + 1
      else if even \<lfloor>y\<rfloor> then \<lfloor>y\<rfloor> else \<lfloor>y\<rfloor> + 1)"

text \<open>
  Rounding an exact result to binary32 (round to nearest, ties to even): the nearest
  multiple of the spacing, and an infinity when that is 2^128 or more in magnitude.
\<close>

definition round32 :: "real \<Rightarrow> float32" where
  "round32 x =
     (let q = float32_quantum x; r = of_int (roundTiesToEven (x / q)) * q
      in if r \<ge> 2 ^ 128 then PlusInfinity
         else if r \<le> - (2 ^ 128) then MinusInfinity
         else Finite r)"

fun fneg :: "float32 \<Rightarrow> float32" where
  "fneg (Finite a) = Finite (- a)"
| "fneg PlusInfinity = MinusInfinity"
| "fneg MinusInfinity = PlusInfinity"
| "fneg NaN = NaN"

text \<open>\<open>a + b\<close> on floats.\<close>

fun fadd :: "float32 \<Rightarrow> float32 \<Rightarrow> float32" where
  "fadd (Finite a) (Finite b) = round32 (a + b)"
| "fadd NaN b = NaN"
| "fadd a NaN = NaN"
| "fadd PlusInfinity MinusInfinity = NaN"
| "fadd MinusInfinity PlusInfinity = NaN"
| "fadd PlusInfinity b = PlusInfinity"
| "fadd a PlusInfinity = PlusInfinity"
| "fadd MinusInfinity b = MinusInfinity"
| "fadd a MinusInfinity = MinusInfinity"

text \<open>\<open>a - b\<close> on floats.\<close>

definition fsub :: "float32 \<Rightarrow> float32 \<Rightarrow> float32" where
  "fsub a b = fadd a (fneg b)"

text \<open>\<open>a * b\<close> on floats.\<close>

fun fmul :: "float32 \<Rightarrow> float32 \<Rightarrow> float32" where
  "fmul (Finite a) (Finite b) = round32 (a * b)"
| "fmul NaN b = NaN"
| "fmul a NaN = NaN"
| "fmul (Finite a) PlusInfinity = (if a = 0 then NaN else if a > 0 then PlusInfinity else MinusInfinity)"
| "fmul (Finite a) MinusInfinity = (if a = 0 then NaN else if a > 0 then MinusInfinity else PlusInfinity)"
| "fmul PlusInfinity (Finite b) = (if b = 0 then NaN else if b > 0 then PlusInfinity else MinusInfinity)"
| "fmul MinusInfinity (Finite b) = (if b = 0 then NaN else if b > 0 then MinusInfinity else PlusInfinity)"
| "fmul PlusInfinity PlusInfinity = PlusInfinity"
| "fmul PlusInfinity MinusInfinity = MinusInfinity"
| "fmul MinusInfinity PlusInfinity = MinusInfinity"
| "fmul MinusInfinity MinusInfinity = PlusInfinity"

text \<open>
  \<open>a / b\<close> on floats. A zero divisor is taken as the positive zero: the divisors of
  the sources are a product of node sizes, a multiplier and \<open>logf(2.0f)\<close>.
\<close>

fun fdiv :: "float32 \<Rightarrow> float32 \<Rightarrow> float32" where
  "fdiv (Finite a) (Finite b) =
     (if b = 0 then (if a = 0 then NaN else if a > 0 then PlusInfinity else MinusInfinity)
      else round32 (a / b))"
| "fdiv NaN b = NaN"
| "fdiv a NaN = NaN"
| "fdiv (Finite a) PlusInfinity = Finite 0"
| "fdiv (Finite a) MinusInfinity = Finite 0"
| "fdiv PlusInfinity (Finite b) = (if b \<ge> 0 then PlusInfinity else MinusInfinity)"
| "fdiv MinusInfinity (Finite b) = (if b \<ge> 0 then MinusInfinity else PlusInfinity)"
| "fdiv PlusInfinity PlusInfinity = NaN"
| "fdiv PlusInfinity MinusInfinity = NaN"
| "fdiv MinusInfinity PlusInfinity = NaN"
| "fdiv MinusInfinity MinusInfinity = NaN"

text \<open>\<open>a <= b\<close> and \<open>a < b\<close> on floats; a comparison with NaN is false.\<close>

fun fle :: "float32 \<Rightarrow> float32 \<Rightarrow> bool" where
  "fle (Finite a) (Finite b) = (a \<le> b)"
| "fle NaN b = False"
| "fle a NaN = False"
| "fle MinusInfinity b = True"
| "fle a PlusInfinity = True"
| "fle PlusInfinity b = False"
| "fle a MinusInfinity = False"

fun flt :: "float32 \<Rightarrow> float32 \<Rightarrow> bool" where
  "flt (Finite a) (Finite b) = (a < b)"
| "flt NaN b = False"
| "flt a NaN = False"
| "flt PlusInfinity b = False"
| "flt a MinusInfinity = False"
| "flt MinusInfinity b = True"
| "flt a PlusInfinity = True"

text \<open>
  \<open>roundf\<close>: the nearest integral value, halfway cases away from zero; the result is
  exact.
\<close>

fun roundf :: "float32 \<Rightarrow> float32" where
  "roundf (Finite v) = Finite (of_int (if v \<ge> 0 then \<lfloor>v + 1 / 2\<rfloor> else \<lceil>v - 1 / 2\<rceil>))"
| "roundf PlusInfinity = PlusInfinity"
| "roundf MinusInfinity = MinusInfinity"
| "roundf NaN = NaN"

text \<open>
  What the C library and the processor add to the arithmetic: \<open>logf\<close>, whose results
  the C standard does not fix to the last bit, and the \<open>int\<close> that the conversion of a
  float yields when the float is NaN, infinite or outside the range of \<open>int\<close> (the
  language leaves that conversion undefined).
\<close>

record Platform =
  logf :: "real \<Rightarrow> float32"
  invalidInt :: int

text \<open>
  The conversion of a float to \<open>int\<close>: truncation towards zero when the truncated
  value is an \<open>int\<close> of 32 bits.
\<close>

fun floatToInt :: "Platform \<Rightarrow> float32 \<Rightarrow> int" where
  "floatToInt pf (Finite v) =
     (if - 2147483649 < v \<and> v < 2147483648 then (if v \<ge> 0 then \<lfloor>v\<rfloor> else \<lceil>v\<rceil>)
      else invalidInt pf)"
| "floatToInt pf PlusInfinity = invalidInt pf"
| "floatToInt pf MinusInfinity = invalidInt pf"
| "floatToInt pf NaN = invalidInt pf"

subsection \<open>Vectors and boxes\<close>

record vec3 =
  vec_x :: real
  vec_y :: real
  vec_z :: real

definition vec3_splat :: "real \<Rightarrow> vec3" where
  "vec3_splat s = \<lparr>vec_x = s, vec_y = s, vec_z = s\<rparr>"

definition vec3_add :: "vec3 \<Rightarrow> vec3 \<Rightarrow> vec3" where
  "vec3_add a b = \<lparr>vec_x = vec_x a + vec_x b, vec_y = vec_y a + vec_y b, vec_z = vec_z a + vec_z b\<rparr>"

definition vec3_sub :: "vec3 \<Rightarrow> vec3 \<Rightarrow> vec3" where
  "vec3_sub a b = \<lparr>vec_x = vec_x a - vec_x b, vec_y = vec_y a - vec_y b, vec_z = vec_z a - vec_z b\<rparr>"

definition vec3_scale :: "vec3 \<Rightarrow> real \<Rightarrow> vec3" where
  "vec3_scale a s = \<lparr>vec_x = vec_x a * s, vec_y = vec_y a * s, vec_z = vec_z a * s\<rparr>"

definition glm_max :: "vec3 \<Rightarrow> vec3 \<Rightarrow> vec3" where
  "glm_max a b = \<lparr>vec_x = max (vec_x a) (vec_x b), vec_y = max (vec_y a) (vec_y b), vec_z = max (vec_z a) (vec_z b)\<rparr>"

definition glm_min :: "vec3 \<Rightarrow> vec3 \<Rightarrow> vec3" where
  "glm_min a b = \<lparr>vec_x = min (vec_x a) (vec_x b), vec_y = min (vec_y a) (vec_y b), vec_z = min (vec_z a) (vec_z b)\<rparr>"

text \<open>
  A \<open>glm::vec3\<close> that float arithmetic has produced, and the componentwise operators
  of \<open>glm::vec3\<close> in binary32 arithmetic. \<open>glm::min\<close> is outside the sources; on
  values that are not NaN it returns the smaller one, and the operands it gets here are
  not NaN (they are finite values and sums of two finite values).
\<close>

record vec3f =
  f_x :: float32
  f_y :: float32
  f_z :: float32

definition float3 :: "vec3 \<Rightarrow> vec3f" where
  "float3 v = \<lparr>f_x = Finite (vec_x v), f_y = Finite (vec_y v), f_z = Finite (vec_z v)\<rparr>"

definition vec3f_add :: "vec3f \<Rightarrow> vec3f \<Rightarrow> vec3f" where
  "vec3f_add a b = \<lparr>f_x = fadd (f_x a) (f_x b), f_y = fadd (f_y a) (f_y b), f_z = fadd (f_z a) (f_z b)\<rparr>"

definition vec3f_sub :: "vec3f \<Rightarrow> vec3f \<Rightarrow> vec3f" where
  "vec3f_sub a b = \<lparr>f_x = fsub (f_x a) (f_x b), f_y = fsub (f_y a) (f_y b), f_z = fsub (f_z a) (f_z b)\<rparr>"

definition vec3f_scale :: "vec3f \<Rightarrow> float32 \<Rightarrow> vec3f" where
  "vec3f_scale a s = \<lparr>f_x = fmul (f_x a) s, f_y = fmul (f_y a) s, f_z = fmul (f_z a) s\<rparr>"

definition fmin :: "float32 \<Rightarrow> float32 \<Rightarrow> float32" where
  "fmin a b = (if flt b a then b else a)"

definition vec3f_min :: "vec3f \<Rightarrow> vec3f \<Rightarrow> vec3f" where
  "vec3f_min a b = \<lparr>f_x = fmin (f_x a) (f_x b), f_y = fmin (f_y a) (f_y b), f_z = fmin (f_z a) (f_z b)\<rparr>"

record Box =
  minimum :: vec3
  maximum :: vec3

text \<open>
  Modelled from the spec: Box::contains is not among the sources. The spec's Box is an
  axis-aligned region given by its \<open>minimum\<close> and \<open>maximum\<close> corners; a box contains
  another when it does so in every component.
\<close>

definition Box_contains :: "Box \<Rightarrow> Box \<Rightarrow> bool" where
  "Box_contains b other =
     (vec_x (minimum other) \<ge> vec_x (minimum b) \<and> vec_x (maximum other) \<le> vec_x (maximum b) \<and>
      vec_y (minimum other) \<ge> vec_y (minimum b) \<and> vec_y (maximum other) \<le> vec_y (maximum b) \<and>
      vec_z (minimum other) \<ge> vec_z (minimum b) \<and> vec_z (maximum other) \<le> vec_z (maximum b))"

text \<open>
  Modelled from the spec: Box::intersects is not among the sources. Two boxes intersect
  when their closed intervals meet in every component.
\<close>

definition Box_intersects :: "Box \<Rightarrow> Box \<Rightarrow> bool" where
  "Box_intersects b other =
     (vec_x (maximum other) \<ge> vec_x (minimum b) \<and> vec_x (minimum other) \<le> vec_x (maximum b) \<and>
      vec_y (maximum other) \<ge> vec_y (minimum b) \<and> vec_y (minimum other) \<le> vec_y (maximum b) \<and>
      vec_z (maximum other) \<ge> vec_z (minimum b) \<and> vec_z (minimum other) \<le> vec_z (maximum b))"

text \<open>
  Modelled from the spec: Box::getLongestSide is not among the sources. It is the
  largest of the three extents (the spec's "longest bounds side").
\<close>

definition Box_getLongestSide :: "Box \<Rightarrow> real" where
  "Box_getLongestSide b =
     max (max (vec_x (maximum b) - vec_x (minimum b)) (vec_y (maximum b) - vec_y (minimum b)))
         (vec_z (maximum b) - vec_z (minimum b))"

subsection \<open>Attributes, values and traversal infos\<close>

text \<open>
  A shared object (a spanner, a material) is known by its address; a null pointer is
  \<open>None\<close>. An attribute value's payload is either an encoded plain value or, for the
  spanners attribute, a set of shared objects, kept in its iteration order.
\<close>

type_synonym SharedObjectPointer = nat

datatype Payload = Encoded int | ObjectSet "SharedObjectPointer list"

record Attribute =
  attributeName :: string
  defaultValue :: Payload
  lodThresholdMultiplier :: real

datatype AttributeValue = AttributeValue (getAttribute: Attribute) (getValue: Payload)

text \<open>\<open>AttributeValue(attribute)\<close>: the attribute's default value.\<close>

definition AttributeValue_of :: "Attribute \<Rightarrow> AttributeValue" where
  "AttributeValue_of a = AttributeValue a (defaultValue a)"

text \<open>
  MetavoxelInfo. An output value that the visitor has not written is \<open>None\<close> (the
  outputs are write-only: the traversal hands them out unset).
\<close>

datatype MetavoxelInfo = MetavoxelInfo
  (info_minimum: vec3)
  (info_size: real)
  (parentInfo: "MetavoxelInfo option")
  (inputValues: "AttributeValue list")
  (outputValues: "AttributeValue option list")

datatype VisitResult = DEFAULT_ORDER | STOP_RECURSION

type_synonym Visit = "MetavoxelInfo \<Rightarrow> (VisitResult \<times> MetavoxelInfo) option"

definition setOutputValues :: "AttributeValue option list \<Rightarrow> MetavoxelInfo \<Rightarrow> MetavoxelInfo" where
  "setOutputValues outs info =
     MetavoxelInfo (info_minimum info) (info_size info) (parentInfo info) (inputValues info) outs"

text \<open>
  \<open>info.outputValues[i] = v\<close>: an indexed write into a QVector. Inside the vector it
  replaces the element; outside it the container's range assertion fails, which is
  the result \<open>None\<close>.
\<close>

definition assignOutput :: "nat \<Rightarrow> AttributeValue \<Rightarrow> MetavoxelInfo \<Rightarrow> MetavoxelInfo option" where
  "assignOutput i v info =
     (if i < length (outputValues info)
      then Some (setOutputValues ((outputValues info)[i := Some v]) info)
      else None)"

text \<open>
  Modelled from the spec: MetavoxelInfo::getBounds is not among the sources. The node's
  cube has the corner \<open>minimum\<close> and the edge length \<open>size\<close>.
\<close>

definition info_getBounds :: "MetavoxelInfo \<Rightarrow> Box" where
  "info_getBounds info =
     \<lparr>minimum = info_minimum info,
      maximum = vec3_add (info_minimum info) (vec3_splat (info_size info))\<rparr>"

subsection \<open>Box-set edit\<close>

record BoxSetEdit =
  boxSet_region :: Box
  boxSet_granularity :: real
  boxSet_value :: AttributeValue

text \<open>
  BoxSetEditVisitor::visit, part_001 lines 47-67 (and 242-262, the same text).
  \<open>glm::max\<close> of line 49 is taken of two finite values and is their maximum; the sum
  of line 50, the difference of line 51 and the products and the quotient of line 55
  are float operations.
\<close>

definition BoxSetEditVisitor_visit :: "BoxSetEdit \<Rightarrow> Visit" where
  "BoxSetEditVisitor_visit edit info =
     (let lo = glm_max (info_minimum info) (minimum (boxSet_region edit));
          hi = vec3f_min (vec3f_add (float3 (info_minimum info)) (float3 (vec3_splat (info_size info))))
                 (float3 (maximum (boxSet_region edit)));
          sz = vec3f_sub hi (float3 lo)
      in if fle (f_x sz) (Finite 0) \<or> fle (f_y sz) (Finite 0) \<or> fle (f_z sz) (Finite 0)
         then Some (STOP_RECURSION, info)
         else
           let volume = fdiv (fmul (fmul (f_x sz) (f_y sz)) (f_z sz))
                          (fmul (fmul (Finite (info_size info)) (Finite (info_size info)))
                             (Finite (info_size info)))
           in if fle (Finite 1) volume then
                map_option (Pair STOP_RECURSION) (assignOutput 0 (boxSet_value edit) info)
              else if info_size info \<le> boxSet_granularity edit then
                (if fle (Finite (1 / 2)) volume then
                   map_option (Pair STOP_RECURSION) (assignOutput 0 (boxSet_value edit) info)
                 else Some (STOP_RECURSION, info))
              else Some (DEFAULT_ORDER, info))"

text \<open>
  The quantities the visit decides on, as it computes them: the extent of the
  intersection of the node's cube with the edit region (lines 49-51), and the volume of
  that intersection divided by the volume of the node (line 55).
\<close>

definition intersectionExtent :: "BoxSetEdit \<Rightarrow> MetavoxelInfo \<Rightarrow> vec3f" where
  "intersectionExtent edit info =
     vec3f_sub
       (vec3f_min (vec3f_add (float3 (info_minimum info)) (float3 (vec3_splat (info_size info))))
          (float3 (maximum (boxSet_region edit))))
       (float3 (glm_max (info_minimum info) (minimum (boxSet_region edit))))"

definition overlapFraction :: "BoxSetEdit \<Rightarrow> MetavoxelInfo \<Rightarrow> float32" where
  "overlapFraction edit info =
     fdiv (fmul (fmul (f_x (intersectionExtent edit info)) (f_y (intersectionExtent edit info)))
             (f_z (intersectionExtent edit info)))
          (fmul (fmul (Finite (info_size info)) (Finite (info_size info))) (Finite (info_size info)))"

text \<open>
  The same quantities of the two boxes themselves, without rounding: the intersection
  of the node's cube with the edit region, when it is degenerate, and the share of the
  node's volume it covers.
\<close>

definition Box_intersection :: "Box \<Rightarrow> Box \<Rightarrow> Box" where
  "Box_intersection a b =
     \<lparr>minimum = glm_max (minimum a) (minimum b), maximum = glm_min (maximum a) (maximum b)\<rparr>"

definition Box_extent :: "Box \<Rightarrow> vec3" where
  "Box_extent b = vec3_sub (maximum b) (minimum b)"

definition Box_degenerate :: "Box \<Rightarrow> bool" where
  "Box_degenerate b =
     (vec_x (Box_extent b) \<le> 0 \<or> vec_y (Box_extent b) \<le> 0 \<or> vec_z (Box_extent b) \<le> 0)"

definition Box_volume :: "Box \<Rightarrow> real" where
  "Box_volume b = vec_x (Box_extent b) * vec_y (Box_extent b) * vec_z (Box_extent b)"

definition overlapVolume :: "BoxSetEdit \<Rightarrow> MetavoxelInfo \<Rightarrow> real" where
  "overlapVolume edit info =
     Box_volume (Box_intersection (info_getBounds info) (boxSet_region edit)) /
     Box_volume (info_getBounds info)"

definition withOutput0 :: "AttributeValue \<Rightarrow> MetavoxelInfo \<Rightarrow> MetavoxelInfo" where
  "withOutput0 v info = setOutputValues (Some v # tl (outputValues info)) info"

subsection \<open>Global-set edit\<close>

record GlobalSetEdit =
  globalSet_value :: AttributeValue

text \<open>GlobalSetEditVisitor::visit, part_001 lines 100-103 (and 295-298).\<close>

definition GlobalSetEditVisitor_visit :: "GlobalSetEdit \<Rightarrow> Visit" where
  "GlobalSetEditVisitor_visit edit info =
     map_option (Pair STOP_RECURSION) (assignOutput 0 (globalSet_value edit) info)"

subsection \<open>Colours and the material edit's effective colour\<close>

text \<open>
  QColor in its floating-point view: the four channels as \<open>redF\<close>, \<open>greenF\<close>,
  \<open>blueF\<close> and \<open>alphaF\<close> read them, each between 0 and 1.
\<close>

record QColor =
  redF :: real
  greenF :: real
  blueF :: real
  alphaF :: real

definition setAlphaF :: "real \<Rightarrow> QColor \<Rightarrow> QColor" where
  "setAlphaF a c = c\<lparr>alphaF := a\<rparr>"

text \<open>\<open>QColor(r, g, b, a)\<close> with integer channels from 0 to 255.\<close>

definition QColor_rgba :: "int \<Rightarrow> int \<Rightarrow> int \<Rightarrow> int \<Rightarrow> QColor" where
  "QColor_rgba r g b a =
     \<lparr>redF = real_of_int r / 255, greenF = real_of_int g / 255,
      blueF = real_of_int b / 255, alphaF = real_of_int a / 255\<rparr>"

record HeightfieldMaterialSpannerEdit =
  material_spanner :: SharedObjectPointer
  material_material :: SharedObjectPointer
  material_averageColor :: QColor
  material_paint :: bool

text \<open>
  HeightfieldMaterialSpannerEdit::apply, part_001 lines 184-191: the colour handed to
  every \<open>setMaterial\<close> call.
\<close>

definition effectiveColor :: "HeightfieldMaterialSpannerEdit \<Rightarrow> QColor" where
  "effectiveColor edit =
     (let color = material_averageColor edit
      in if material_paint edit then setAlphaF 1 color
         else if alphaF color < 1 / 2 then QColor_rgba 0 0 0 0
         else color)"

subsection \<open>Spanners and the attribute registry\<close>

text \<open>
  The Spanner class and the AttributeRegistry are not among the sources. A spanner's
  virtual methods are taken as parameters, gathered in one record; the registry is
  taken as the one attribute the edits ask it for.
\<close>

record SpannerMethods =
  getBounds :: "SharedObjectPointer \<Rightarrow> Box"
  getPlacementGranularity :: "SharedObjectPointer \<Rightarrow> real"
  getAttributes :: "SharedObjectPointer \<Rightarrow> Attribute list"
  getVoxelizedAttributes :: "SharedObjectPointer \<Rightarrow> Attribute list"
  blendAttributeValues :: "SharedObjectPointer \<Rightarrow> MetavoxelInfo \<Rightarrow> bool \<Rightarrow> bool \<times> MetavoxelInfo"
  paintHeight :: "SharedObjectPointer \<Rightarrow> vec3 \<Rightarrow> real \<Rightarrow> real \<Rightarrow> SharedObjectPointer"
  setMaterial :: "SharedObjectPointer \<Rightarrow> SharedObjectPointer \<Rightarrow> SharedObjectPointer \<Rightarrow> QColor \<Rightarrow> bool \<Rightarrow> SharedObjectPointer"

record AttributeRegistry =
  getSpannersAttribute :: Attribute

subsection \<open>The spanner update visitor\<close>

record UpdateSpannerVisitor =
  visitor_inputs :: "Attribute list"
  visitor_outputs :: "Attribute list"
  visitor_spanner :: SharedObjectPointer
  visitor_voxelizationSize :: float32
  visitor_steps :: int

text \<open>
  The constructor, part_001 lines 324-332. \<open>qMax\<close> of two finite values is their
  maximum; the product by \<open>2.0f\<close>, the two quotients and the difference are float
  operations, and the result of \<open>roundf\<close> is converted to \<open>int\<close>.
\<close>

definition UpdateSpannerVisitor_new ::
  "Platform \<Rightarrow> AttributeRegistry \<Rightarrow> SpannerMethods \<Rightarrow> Attribute list \<Rightarrow> SharedObjectPointer \<Rightarrow>
   UpdateSpannerVisitor" where
  "UpdateSpannerVisitor_new pf reg sm attributes spanner =
     \<lparr>visitor_inputs = attributes @ [getSpannersAttribute reg],
      visitor_outputs = attributes,
      visitor_spanner = spanner,
      visitor_voxelizationSize =
        fdiv (fmul (Finite (max (Box_getLongestSide (getBounds sm spanner))
                               (getPlacementGranularity sm spanner)))
                (Finite 2))
             (Finite (lodThresholdMultiplier (getSpannersAttribute reg))),
      visitor_steps =
        floatToInt pf
          (roundf (fsub (fdiv (logf pf (lodThresholdMultiplier (getSpannersAttribute reg)))
                           (logf pf 2))
                     (Finite 2)))\<rparr>"

text \<open>The loop of lines 339-341, entered with \<open>i = 0\<close> and \<open>info.parentInfo\<close>.\<close>

function walkParents :: "int \<Rightarrow> int \<Rightarrow> MetavoxelInfo option \<Rightarrow> MetavoxelInfo option" where
  "walkParents i n p =
     (if i < n \<and> p \<noteq> None then walkParents (i + 1) n (parentInfo (the p)) else p)"
  by pat_completeness auto
termination
  by (relation "measure (\<lambda>(i, n, p). nat (n - i))") auto

text \<open>The loop of lines 342-344, entered with \<open>i = 0\<close>.\<close>

function resetOutputs :: "nat \<Rightarrow> Attribute list \<Rightarrow> MetavoxelInfo \<Rightarrow> MetavoxelInfo option" where
  "resetOutputs i outs info =
     (if i < length outs then
        (case assignOutput i (AttributeValue_of (outs ! i)) info of
           None \<Rightarrow> None
         | Some info' \<Rightarrow> resetOutputs (i + 1) outs info')
      else Some info)"
  by pat_completeness auto
termination
  by (relation "measure (\<lambda>(i, outs, info). length outs - i)") auto

text \<open>
  The loop of lines 346-349 over the ancestor's spanner set; the result of each
  \<open>blendAttributeValues\<close> call is dropped, its change of the info kept.
\<close>

fun blendAll :: "SpannerMethods \<Rightarrow> SharedObjectPointer list \<Rightarrow> MetavoxelInfo \<Rightarrow> MetavoxelInfo" where
  "blendAll sm [] info = info"
| "blendAll sm (object # objects) info =
     blendAll sm objects (snd (blendAttributeValues sm object info True))"

text \<open>
  \<open>inputValues.at(n).getInlineValue<SharedObjectSet>()\<close>: \<open>at\<close> asserts its range,
  and the payload read as an object set must be one.
\<close>

definition inputObjectSet :: "nat \<Rightarrow> MetavoxelInfo \<Rightarrow> SharedObjectPointer list option" where
  "inputObjectSet n info =
     (if n < length (inputValues info) then
        (case getValue (inputValues info ! n) of
           ObjectSet objects \<Rightarrow> Some objects
         | Encoded _ \<Rightarrow> None)
      else None)"

text \<open>UpdateSpannerVisitor::visit, part_001 lines 334-352.\<close>

definition UpdateSpannerVisitor_visit :: "SpannerMethods \<Rightarrow> UpdateSpannerVisitor \<Rightarrow> Visit" where
  "UpdateSpannerVisitor_visit sm v info =
     (if \<not> Box_intersects (info_getBounds info) (getBounds sm (visitor_spanner v))
      then Some (STOP_RECURSION, info)
      else
        let ancestor = walkParents 0 (visitor_steps v) (parentInfo info)
        in case resetOutputs 0 (visitor_outputs v) info of
             None \<Rightarrow> None
           | Some info1 \<Rightarrow>
               (case (case ancestor of
                        None \<Rightarrow> Some info1
                      | Some a \<Rightarrow>
                          map_option (\<lambda>objects. blendAll sm objects info1)
                            (inputObjectSet (length (visitor_outputs v)) a)) of
                  None \<Rightarrow> None
                | Some info2 \<Rightarrow>
                    Some (if flt (visitor_voxelizationSize v) (Finite (info_size info2))
                          then DEFAULT_ORDER else STOP_RECURSION, info2)))"

subsection \<open>Metavoxel data\<close>

text \<open>
  Modelled from the spec: the class MetavoxelNode is not among the sources. A node owns
  one attribute value and its children, none for a leaf and eight otherwise.
\<close>

datatype MetavoxelNode = MetavoxelNode (nodeValue: AttributeValue) (children: "MetavoxelNode list")

text \<open>
  Modelled from the spec: the class MetavoxelData is not among the sources. The data
  owns one root node per populated attribute, the edge length of its bounds and, per
  attribute, the collection of spanners inserted under it.
\<close>

record MetavoxelData =
  data_size :: real
  roots :: "Attribute \<Rightarrow> MetavoxelNode option"
  spannerCollection :: "Attribute \<Rightarrow> SharedObjectPointer list"

definition leafNode :: "AttributeValue \<Rightarrow> MetavoxelNode" where
  "leafNode v = MetavoxelNode v []"

text \<open>
  Modelled from the spec: MetavoxelData::getBounds is not among the sources. The bounds
  are the cube of the data's edge length centred on the origin, so that doubling
  reaches every region.
\<close>

definition MetavoxelData_getBounds :: "MetavoxelData \<Rightarrow> Box" where
  "MetavoxelData_getBounds d =
     \<lparr>minimum = vec3_splat (- (data_size d / 2)), maximum = vec3_splat (data_size d / 2)\<rparr>"

text \<open>
  Modelled from the spec: the child of a node in octant \<open>i\<close>; a leaf stands for each of
  its octants (a child's input is inherited from its parent).
\<close>

definition childNode :: "nat \<Rightarrow> MetavoxelNode \<Rightarrow> MetavoxelNode" where
  "childNode i n = (if i < length (children n) then children n ! i else leafNode (nodeValue n))"

text \<open>
  Modelled from the spec: the octants of a cube in their fixed order. Bit 0 of \<open>i\<close>
  selects the upper half in x, bit 1 in y, bit 2 in z.
\<close>

definition childMinimum :: "vec3 \<Rightarrow> real \<Rightarrow> nat \<Rightarrow> vec3" where
  "childMinimum m s i =
     \<lparr>vec_x = vec_x m + (if odd i then s / 2 else 0),
      vec_y = vec_y m + (if odd (i div 2) then s / 2 else 0),
      vec_z = vec_z m + (if odd (i div 4) then s / 2 else 0)\<rparr>"

text \<open>Modelled from the spec: the octant of a cube that holds a position.\<close>

definition octantOf :: "vec3 \<Rightarrow> real \<Rightarrow> vec3 \<Rightarrow> nat" where
  "octantOf m s pos =
     (if vec_x pos \<ge> vec_x m + s / 2 then 1 else 0) +
     (if vec_y pos \<ge> vec_y m + s / 2 then 2 else 0) +
     (if vec_z pos \<ge> vec_z m + s / 2 then 4 else 0)"

text \<open>
  Modelled from the spec: the root of a tree after the bounds have doubled. The old cube
  is the centre of the new one: what was the root's octant \<open>i\<close> is the innermost
  octant (\<open>7 - i\<close>) of the new root's child \<open>i\<close>, whose other octants hold the
  attribute's default.
\<close>

definition expandRoot :: "Attribute \<Rightarrow> MetavoxelNode \<Rightarrow> MetavoxelNode" where
  "expandRoot a n =
     MetavoxelNode (nodeValue n)
       (map (\<lambda>i. MetavoxelNode (AttributeValue_of a)
                   (map (\<lambda>j. if j = 7 - i then childNode i n else leafNode (AttributeValue_of a))
                      [0..<8]))
          [0..<8])"

text \<open>
  Modelled from the spec: MetavoxelData::expand is not among the sources. It doubles
  the edge length of the bounds and keeps every stored value at its place.
\<close>

definition MetavoxelData_expand :: "MetavoxelData \<Rightarrow> MetavoxelData" where
  "MetavoxelData_expand d =
     d\<lparr>data_size := data_size d * 2, roots := (\<lambda>a. map_option (expandRoot a) (roots d a))\<rparr>"

text \<open>
  Modelled from the spec (section 4.1): accepting a visit's outputs as the node's new
  values. An output the visitor wrote replaces the node by a leaf of that value; an
  output it left unset leaves the node as it is.
\<close>

definition acceptOutputs :: "AttributeValue option list \<Rightarrow> MetavoxelNode list \<Rightarrow> MetavoxelNode list" where
  "acceptOutputs written nodes =
     map (\<lambda>j. case (if j < length written then written ! j else None) of
                 None \<Rightarrow> nodes ! j
               | Some v \<Rightarrow> leafNode v)
       [0..<length nodes]"

text \<open>
  Modelled from the spec (section 4.1): the traversal of one node by
  MetavoxelData::guide, which is not among the sources. The node gets an info with the
  stored input values, unset outputs and a link to the caller's info, and the visitor
  is called on it. On \<open>STOP_RECURSION\<close> the traversal of the node ends; on
  \<open>DEFAULT_ORDER\<close> the eight octants are visited in order at half the size. The first
  argument bounds the depth of the traversal: \<open>None\<close> is a traversal that needs more
  than that depth, or a visitor that failed.
\<close>

fun guideNode ::
  "nat \<Rightarrow> Visit \<Rightarrow> MetavoxelInfo option \<Rightarrow> vec3 \<Rightarrow> real \<Rightarrow> MetavoxelNode list \<Rightarrow>
   MetavoxelNode list \<Rightarrow> MetavoxelNode list option" where
  "guideNode 0 visit parent m s ins outs = None"
| "guideNode (Suc fuel) visit parent m s ins outs =
     (case visit (MetavoxelInfo m s parent (map nodeValue ins) (map (\<lambda>_. None) outs)) of
        None \<Rightarrow> None
      | Some (order, info) \<Rightarrow>
          (let accepted = acceptOutputs (outputValues info) outs
           in case order of
                STOP_RECURSION \<Rightarrow> Some accepted
              | DEFAULT_ORDER \<Rightarrow>
                  (case those (map (\<lambda>i. guideNode fuel visit (Some info) (childMinimum m s i) (s / 2)
                                          (map (childNode i) ins) (map (childNode i) accepted))
                                 [0..<8]) of
                     None \<Rightarrow> None
                   | Some results \<Rightarrow>
                       Some (map (\<lambda>j. MetavoxelNode (nodeValue (accepted ! j))
                                         (map (\<lambda>r. r ! j) results))
                               [0..<length accepted]))))"

text \<open>
  Modelled from the spec (section 4.1): the root of an attribute's tree, a leaf of the
  attribute's default value when the data has none.
\<close>

definition rootOrDefault :: "MetavoxelData \<Rightarrow> Attribute \<Rightarrow> MetavoxelNode" where
  "rootOrDefault d a = (case roots d a of None \<Rightarrow> leafNode (AttributeValue_of a) | Some n \<Rightarrow> n)"

text \<open>Modelled from the spec (section 4.1): the output attributes' new roots, stored.\<close>

fun storeRoots :: "Attribute list \<Rightarrow> MetavoxelNode list \<Rightarrow> (Attribute \<Rightarrow> MetavoxelNode option) \<Rightarrow>
   (Attribute \<Rightarrow> MetavoxelNode option)" where
  "storeRoots (a # as) (n # ns) r = storeRoots as ns (r(a \<mapsto> n))"
| "storeRoots _ _ r = r"

text \<open>
  Modelled from the spec (section 4.1): MetavoxelData::guide is not among the sources.
  The traversal starts at the data's bounds with the roots of the visitor's input and
  output attributes.
\<close>

definition MetavoxelData_guide ::
  "nat \<Rightarrow> Attribute list \<Rightarrow> Attribute list \<Rightarrow> Visit \<Rightarrow> MetavoxelData \<Rightarrow> MetavoxelData option" where
  "MetavoxelData_guide fuel inputs outputs visit d =
     map_option (\<lambda>nodes. d\<lparr>roots := storeRoots outputs nodes (roots d)\<rparr>)
       (guideNode fuel visit None (minimum (MetavoxelData_getBounds d)) (data_size d)
          (map (rootOrDefault d) inputs) (map (rootOrDefault d) outputs))"

text \<open>
  Modelled from the spec: a point query on a tree, which is not among the sources. It
  reads the value of the leaf that holds the position.
\<close>

function nodeValueAt :: "MetavoxelNode \<Rightarrow> vec3 \<Rightarrow> real \<Rightarrow> vec3 \<Rightarrow> AttributeValue" where
  "nodeValueAt n m s pos =
     (if octantOf m s pos < length (children n)
      then nodeValueAt (children n ! octantOf m s pos) (childMinimum m s (octantOf m s pos)) (s / 2) pos
      else nodeValue n)"
  by pat_completeness auto
termination
proof (relation "measure (\<lambda>(n, m, s, pos). size n)")
  show "wf (measure (\<lambda>(n, m, s, pos). size n))" by simp
next
  fix n :: MetavoxelNode and m s pos
  assume "octantOf m s pos < length (children n)"
  then have "children n ! octantOf m s pos \<in> set (children n)" by simp
  then have "size (children n ! octantOf m s pos) < size n"
    by (cases n) (auto simp: less_Suc_eq_le dest: size_list_estimation'[where f = size and y = "size (children n ! octantOf m s pos)"])
  then show "((children n ! octantOf m s pos, childMinimum m s (octantOf m s pos), s / 2, pos), (n, m, s, pos))
      \<in> measure (\<lambda>(n, m, s, pos). size n)" by simp
qed

text \<open>
  Modelled from the spec: a point query on the data, which is not among the sources. An
  attribute without a root has its default value everywhere.
\<close>

definition MetavoxelData_valueAt :: "MetavoxelData \<Rightarrow> Attribute \<Rightarrow> vec3 \<Rightarrow> AttributeValue" where
  "MetavoxelData_valueAt d a pos =
     (case roots d a of
        None \<Rightarrow> AttributeValue_of a
      | Some n \<Rightarrow> nodeValueAt n (minimum (MetavoxelData_getBounds d)) (data_size d) pos)"

text \<open>
  Modelled from the spec: MetavoxelData::remove is not among the sources. It unlinks the
  spanner from the attribute's collection.
\<close>

definition MetavoxelData_remove :: "Attribute \<Rightarrow> SharedObjectPointer \<Rightarrow> MetavoxelData \<Rightarrow> MetavoxelData" where
  "MetavoxelData_remove a object d =
     d\<lparr>spannerCollection := (spannerCollection d)(a := removeAll object (spannerCollection d a))\<rparr>"


text \<open>
  Modelled from the spec: MetavoxelData::replace is not among the sources. It puts the
  new instance in the old one's place in the attribute's collection.
\<close>

definition MetavoxelData_replace ::
  "Attribute \<Rightarrow> SharedObjectPointer \<Rightarrow> SharedObjectPointer \<Rightarrow> MetavoxelData \<Rightarrow> MetavoxelData" where
  "MetavoxelData_replace a oldObject newObject d =
     d\<lparr>spannerCollection := (spannerCollection d)
         (a := remdups (map (\<lambda>object. if object = oldObject then newObject else object)
                          (spannerCollection d a)))\<rparr>"

text \<open>
  Modelled from the spec: MetavoxelData::getIntersecting is not among the sources. It
  returns the spanners of the attribute's collection whose bounds intersect the box.
\<close>

definition MetavoxelData_getIntersecting ::
  "SpannerMethods \<Rightarrow> Attribute \<Rightarrow> Box \<Rightarrow> MetavoxelData \<Rightarrow> SharedObjectPointer list" where
  "MetavoxelData_getIntersecting sm a box d =
     filter (\<lambda>object. Box_intersects (getBounds sm object) box) (spannerCollection d a)"

text \<open>
  The loop \<open>while (!data.getBounds().contains(region)) { data.expand(); }\<close> of
  BoxSetEdit::apply (part_001 lines 71-73 and 266-268) and SetSpannerEdit::apply (lines
  419-421). A loop that does not end is the result \<open>None\<close>.
\<close>

partial_function (option) expandToFit :: "Box \<Rightarrow> MetavoxelData \<Rightarrow> MetavoxelData option" where
  "expandToFit region d =
     (if Box_contains (MetavoxelData_getBounds d) region then Some d
      else expandToFit region (MetavoxelData_expand d))"



text \<open>
  Modelled from the spec (sections 4.4 and 8): MetavoxelData::insert is not among the
  sources. The bounds grow by \<open>expand\<close> until they contain the spanner's bounds (the
  bounds contain every inserted region), and the spanner is added to the attribute's
  collection, which holds a spanner once.
\<close>

definition MetavoxelData_insert ::
  "SpannerMethods \<Rightarrow> Attribute \<Rightarrow> SharedObjectPointer \<Rightarrow> MetavoxelData \<Rightarrow> MetavoxelData option" where
  "MetavoxelData_insert sm a object d =
     map_option
       (\<lambda>d'. d'\<lparr>spannerCollection := (spannerCollection d')
                  (a := (if object \<in> set (spannerCollection d' a) then spannerCollection d' a
                         else spannerCollection d' a @ [object]))\<rparr>)
       (expandToFit (getBounds sm object) d)"

subsection \<open>The edits' apply functions\<close>


text \<open>GlobalSetEdit::apply, part_001 lines 105-108 (and 300-303).\<close>

definition GlobalSetEdit_apply :: "nat \<Rightarrow> GlobalSetEdit \<Rightarrow> MetavoxelData \<Rightarrow> MetavoxelData option" where
  "GlobalSetEdit_apply fuel edit d =
     MetavoxelData_guide fuel [] [getAttribute (globalSet_value edit)]
       (GlobalSetEditVisitor_visit edit) d"

record InsertSpannerEdit =
  insert_attribute :: Attribute
  insert_spanner :: SharedObjectPointer

text \<open>InsertSpannerEdit::apply, part_001 lines 115-117.\<close>

definition InsertSpannerEdit_apply ::
  "SpannerMethods \<Rightarrow> InsertSpannerEdit \<Rightarrow> MetavoxelData \<Rightarrow> MetavoxelData option" where
  "InsertSpannerEdit_apply sm edit d =
     MetavoxelData_insert sm (insert_attribute edit) (insert_spanner edit) d"

text \<open>
  The visitor that InsertSpannerEdit::apply (line 358) and RemoveSpannerEdit::apply
  (line 378) build for a spanner.
\<close>

definition updateVisitorFor ::
  "Platform \<Rightarrow> AttributeRegistry \<Rightarrow> SpannerMethods \<Rightarrow> SharedObjectPointer \<Rightarrow> UpdateSpannerVisitor" where
  "updateVisitorFor pf reg sm spanner =
     UpdateSpannerVisitor_new pf reg sm (getVoxelizedAttributes sm spanner) spanner"

text \<open>\<open>data.guide(visitor)\<close> for an update visitor.\<close>

definition guideUpdate ::
  "nat \<Rightarrow> SpannerMethods \<Rightarrow> UpdateSpannerVisitor \<Rightarrow> MetavoxelData \<Rightarrow> MetavoxelData option" where
  "guideUpdate fuel sm visitor d =
     MetavoxelData_guide fuel (visitor_inputs visitor) (visitor_outputs visitor)
       (UpdateSpannerVisitor_visit sm visitor) d"

text \<open>InsertSpannerEdit::apply, part_001 lines 354-360.\<close>

definition InsertSpannerEdit_apply_rev ::
  "nat \<Rightarrow> Platform \<Rightarrow> AttributeRegistry \<Rightarrow> SpannerMethods \<Rightarrow> InsertSpannerEdit \<Rightarrow> MetavoxelData \<Rightarrow>
   MetavoxelData option" where
  "InsertSpannerEdit_apply_rev fuel pf reg sm edit d =
     (case MetavoxelData_insert sm (insert_attribute edit) (insert_spanner edit) d of
        None \<Rightarrow> None
      | Some d1 \<Rightarrow> guideUpdate fuel sm (updateVisitorFor pf reg sm (insert_spanner edit)) d1)"

text \<open>
  What an edit works on besides the data: the lines written with \<open>qDebug\<close>, and the
  owning pointers (\<open>SharedObjectPointer\<close> locals) that are in scope.
\<close>

record Runtime =
  runtime_data :: MetavoxelData
  debugOutput :: "(string \<times> int) list"
  strongReferences :: "SharedObjectPointer list"

text \<open>An operation on the data, as a step on the state.\<close>

definition onData :: "(MetavoxelData \<Rightarrow> MetavoxelData option) \<Rightarrow> Runtime \<Rightarrow> Runtime option" where
  "onData f rt = map_option (\<lambda>d. rt\<lparr>runtime_data := d\<rparr>) (f (runtime_data rt))"

text \<open>\<open>SharedObjectPointer sharedPointer = object\<close>: an owning pointer comes into scope.\<close>

definition takeStrongReference :: "SharedObjectPointer \<Rightarrow> Runtime \<Rightarrow> Runtime" where
  "takeStrongReference object rt = rt\<lparr>strongReferences := object # strongReferences rt\<rparr>"

text \<open>The owning pointer goes out of scope at the end of the function.\<close>

definition releaseStrongReference :: "SharedObjectPointer \<Rightarrow> Runtime \<Rightarrow> Runtime" where
  "releaseStrongReference object rt = rt\<lparr>strongReferences := remove1 object (strongReferences rt)\<rparr>"

text \<open>\<open>qDebug() << message << n\<close>: one more line of debug output.\<close>

definition qDebug :: "string \<Rightarrow> int \<Rightarrow> Runtime \<Rightarrow> Runtime" where
  "qDebug message n rt = rt\<lparr>debugOutput := debugOutput rt @ [(message, n)]\<rparr>"

text \<open>A shared object is valid while an owning pointer or a spanner collection refers to it.\<close>

definition isValid :: "Runtime \<Rightarrow> SharedObjectPointer \<Rightarrow> bool" where
  "isValid rt object =
     (object \<in> set (strongReferences rt) \<or>
      (\<exists>a. object \<in> set (spannerCollection (runtime_data rt) a)))"

text \<open>\<open>objects.value(id)\<close>: the object known under an id, null (\<open>None\<close>) when there is none.\<close>

type_synonym WeakSharedObjectHash = "int \<Rightarrow> SharedObjectPointer option"

record RemoveSpannerEdit =
  remove_attribute :: Attribute
  remove_id :: int

text \<open>RemoveSpannerEdit::apply, part_001 lines 124-129.\<close>

definition RemoveSpannerEdit_apply ::
  "RemoveSpannerEdit \<Rightarrow> WeakSharedObjectHash \<Rightarrow> Runtime \<Rightarrow> Runtime option" where
  "RemoveSpannerEdit_apply edit objects rt =
     (case objects (remove_id edit) of
        Some object \<Rightarrow>
          Some (rt\<lparr>runtime_data := MetavoxelData_remove (remove_attribute edit) object (runtime_data rt)\<rparr>)
      | None \<Rightarrow> Some rt)"

text \<open>\<open>data.remove(attribute, object)\<close>, as a step on the state.\<close>

definition unlinkSpanner :: "Attribute \<Rightarrow> SharedObjectPointer \<Rightarrow> Runtime \<Rightarrow> Runtime" where
  "unlinkSpanner a object rt = rt\<lparr>runtime_data := MetavoxelData_remove a object (runtime_data rt)\<rparr>"

text \<open>Lines 377-379: the update visitor built for the spanner, guided over the data.\<close>

definition revoxelize ::
  "nat \<Rightarrow> Platform \<Rightarrow> AttributeRegistry \<Rightarrow> SpannerMethods \<Rightarrow> SharedObjectPointer \<Rightarrow> Runtime \<Rightarrow>
   Runtime option" where
  "revoxelize fuel pf reg sm object rt =
     onData (guideUpdate fuel sm (updateVisitorFor pf reg sm object)) rt"

text \<open>RemoveSpannerEdit::apply, part_001 lines 367-380.\<close>

definition RemoveSpannerEdit_apply_rev ::
  "nat \<Rightarrow> Platform \<Rightarrow> AttributeRegistry \<Rightarrow> SpannerMethods \<Rightarrow> RemoveSpannerEdit \<Rightarrow>
   WeakSharedObjectHash \<Rightarrow> Runtime \<Rightarrow> Runtime option" where
  "RemoveSpannerEdit_apply_rev fuel pf reg sm edit objects rt =
     (case objects (remove_id edit) of
        None \<Rightarrow> Some (qDebug ''Missing object to remove'' (remove_id edit) rt)
      | Some object \<Rightarrow>
          map_option (releaseStrongReference object)
            (revoxelize fuel pf reg sm object
               (unlinkSpanner (remove_attribute edit) object (takeStrongReference object rt))))"





record PaintHeightfieldHeightEdit =
  paint_position :: vec3
  paint_radius :: real
  paint_height :: real

text \<open>The value of the literal \<open>1.1f\<close> of line 157: the binary32 value nearest to 1.1.\<close>

definition RADIUS_EXTENSION :: float32 where
  "RADIUS_EXTENSION = Finite (9227469 / 8388608)"

text \<open>
  A corner that float arithmetic has produced, handed to a Box. A Box holds the
  coordinates of its corners as reals, and Box::intersects only compares them with the
  finite coordinates of other boxes: an infinite coordinate is held as 2^128 or -(2^128),
  a bound that no finite binary32 value reaches. The corners of the query box are not
  NaN (they are a finite position minus or plus a product of two finite values).
\<close>

fun coordinate :: "float32 \<Rightarrow> real" where
  "coordinate (Finite x) = x"
| "coordinate PlusInfinity = 2 ^ 128"
| "coordinate MinusInfinity = - (2 ^ 128)"
| "coordinate NaN = 0"

definition corner :: "vec3f \<Rightarrow> vec3" where
  "corner v = \<lparr>vec_x = coordinate (f_x v), vec_y = coordinate (f_y v), vec_z = coordinate (f_z v)\<rparr>"

text \<open>
  PaintHeightfieldHeightEdit::apply, part_001 lines 155-169. \<open>paintQueryBox\<close> is the
  box of lines 157-161, \<open>paintStep\<close> the body of the loop over the query's results.
\<close>

definition paintQueryBox :: "PaintHeightfieldHeightEdit \<Rightarrow> Box" where
  "paintQueryBox edit =
     (let extents = vec3f_scale (float3 (vec3_splat (paint_radius edit))) RADIUS_EXTENSION
      in \<lparr>minimum = corner (vec3f_sub (float3 (paint_position edit)) extents),
          maximum = corner (vec3f_add (float3 (paint_position edit)) extents)\<rparr>)"

definition paintStep ::
  "AttributeRegistry \<Rightarrow> SpannerMethods \<Rightarrow> PaintHeightfieldHeightEdit \<Rightarrow> SharedObjectPointer \<Rightarrow>
   MetavoxelData \<Rightarrow> MetavoxelData" where
  "paintStep reg sm edit spanner d =
     (let newSpanner = paintHeight sm spanner (paint_position edit) (paint_radius edit) (paint_height edit)
      in if newSpanner \<noteq> spanner
         then MetavoxelData_replace (getSpannersAttribute reg) spanner newSpanner d
         else d)"

definition PaintHeightfieldHeightEdit_apply ::
  "AttributeRegistry \<Rightarrow> SpannerMethods \<Rightarrow> PaintHeightfieldHeightEdit \<Rightarrow> MetavoxelData \<Rightarrow>
   MetavoxelData option" where
  "PaintHeightfieldHeightEdit_apply reg sm edit d =
     (let results = MetavoxelData_getIntersecting sm (getSpannersAttribute reg) (paintQueryBox edit) d
      in Some (fold (paintStep reg sm edit) results d))"








subsection \<open>The statements of the specification\<close>

text \<open>The ancestor \<open>n\<close> \<open>parentInfo\<close> links above an info, if the chain is that long.\<close>

fun ancestorAt :: "nat \<Rightarrow> MetavoxelInfo option \<Rightarrow> MetavoxelInfo option" where
  "ancestorAt 0 p = p"
| "ancestorAt (Suc n) p = (case p of None \<Rightarrow> None | Some q \<Rightarrow> ancestorAt n (parentInfo q))"

text \<open>The visited info with every output set to its attribute's default value.\<close>

definition defaultOutputs :: "UpdateSpannerVisitor \<Rightarrow> MetavoxelInfo \<Rightarrow> MetavoxelInfo" where
  "defaultOutputs v info =
     setOutputValues (map (\<lambda>a. Some (AttributeValue_of a)) (visitor_outputs v)) info"

text \<open>Subdivide if and only if the node is larger than the voxelization size.\<close>

definition updateOrder :: "UpdateSpannerVisitor \<Rightarrow> MetavoxelInfo \<Rightarrow> VisitResult" where
  "updateOrder v info =
     (if flt (visitor_voxelizationSize v) (Finite (info_size info))
      then DEFAULT_ORDER else STOP_RECURSION)"

text \<open>Spanners whose \<open>blendAttributeValues\<close> leaves the size of the info it is given alone.\<close>

definition blendKeepsSize :: "SpannerMethods \<Rightarrow> bool" where
  "blendKeepsSize sm =
     (\<forall>object info force. info_size (snd (blendAttributeValues sm object info force)) = info_size info)"

text \<open>
  The visit as section 4.4 of the specification states it: walk up exactly \<open>steps\<close>
  \<open>parentInfo\<close> links to the ancestor that owns the spanner set, and blend every
  spanner found there into the node. The links are counted from the visited node, or,
  with \<open>fromParent\<close>, from its parent; without such an ancestor the stated visit has
  no result.
\<close>

definition UpdateSpannerVisitor_visit_claimed ::
  "bool \<Rightarrow> SpannerMethods \<Rightarrow> UpdateSpannerVisitor \<Rightarrow> Visit" where
  "UpdateSpannerVisitor_visit_claimed fromParent sm v info =
     (if \<not> Box_intersects (info_getBounds info) (getBounds sm (visitor_spanner v))
      then Some (STOP_RECURSION, info)
      else case ancestorAt (nat (visitor_steps v)) (if fromParent then parentInfo info else Some info) of
             None \<Rightarrow> None
           | Some a \<Rightarrow>
               map_option (\<lambda>objects. (updateOrder v info, blendAll sm objects (defaultOutputs v info)))
                 (inputObjectSet (length (visitor_outputs v)) a))"

text \<open>
  A missing id on remove as section 7 of the specification states it: non-fatal, logged,
  no-op.
\<close>

definition RemoveSpannerEdit_apply_missing_claimed :: "RemoveSpannerEdit \<Rightarrow> Runtime \<Rightarrow> Runtime option" where
  "RemoveSpannerEdit_apply_missing_claimed edit rt =
     Some (qDebug ''Missing object to remove'' (remove_id edit) rt)"

text \<open>
  Removing a present spanner as section 4.4 of the specification states it: take a
  strong reference, unlink the spanner from the collection, run the update visitor over
  the removed spanner's attributes, and release the reference after that pass.
\<close>

definition RemoveSpannerEdit_apply_present_claimed ::
  "nat \<Rightarrow> Platform \<Rightarrow> AttributeRegistry \<Rightarrow> SpannerMethods \<Rightarrow> RemoveSpannerEdit \<Rightarrow>
   SharedObjectPointer \<Rightarrow> Runtime \<Rightarrow> Runtime option" where
  "RemoveSpannerEdit_apply_present_claimed fuel pf reg sm edit object rt =
     map_option (releaseStrongReference object)
       (revoxelize fuel pf reg sm object
          (unlinkSpanner (remove_attribute edit) object (takeStrongReference object rt)))"

text \<open>
  The box-set visit as section 4.2 of the specification states it, on the overlap of the
  two boxes themselves: a degenerate intersection stops; an overlap of the whole node
  assigns the value and stops; at the granularity limit the value is assigned if and
  only if the overlap is at least one half of the node; otherwise the node is subdivided.
\<close>

definition BoxSetEditVisitor_visit_claimed :: "BoxSetEdit \<Rightarrow> Visit" where
  "BoxSetEditVisitor_visit_claimed edit info =
     (if Box_degenerate (Box_intersection (info_getBounds info) (boxSet_region edit))
      then Some (STOP_RECURSION, info)
      else if overlapVolume edit info \<ge> 1
      then map_option (Pair STOP_RECURSION) (assignOutput 0 (boxSet_value edit) info)
      else if info_size info \<le> boxSet_granularity edit
      then (if overlapVolume edit info \<ge> 1 / 2
            then map_option (Pair STOP_RECURSION) (assignOutput 0 (boxSet_value edit) info)
            else Some (STOP_RECURSION, info))
      else Some (DEFAULT_ORDER, info))"

text \<open>
  The update visitor's fields as section 4.4 of the specification states them: the
  voxelization size \<open>max(longestBoundsSide, placementGranularity) * 2 /
  lodThresholdMultiplier\<close> and the step count \<open>round(log2(lodThresholdMultiplier) - 2)\<close>,
  as numbers.
\<close>

definition claimedVoxelizationSize :: "AttributeRegistry \<Rightarrow> SpannerMethods \<Rightarrow> SharedObjectPointer \<Rightarrow> real" where
  "claimedVoxelizationSize reg sm spanner =
     max (Box_getLongestSide (getBounds sm spanner)) (getPlacementGranularity sm spanner) * 2 /
       lodThresholdMultiplier (getSpannersAttribute reg)"

definition claimedSteps :: "AttributeRegistry \<Rightarrow> int" where
  "claimedSteps reg =
     (let x = log 2 (lodThresholdMultiplier (getSpannersAttribute reg)) - 2
      in if x \<ge> 0 then \<lfloor>x + 1 / 2\<rfloor> else \<lceil>x - 1 / 2\<rceil>)"

text \<open>
  The paint edit's query box as section 4.7 of the specification states it:
  from \<open>position - radius * 1.1\<close> to \<open>position + radius * 1.1\<close>, as numbers.
\<close>

definition claimedPaintQueryBox :: "PaintHeightfieldHeightEdit \<Rightarrow> Box" where
  "claimedPaintQueryBox edit =
     \<lparr>minimum = vec3_sub (paint_position edit) (vec3_scale (vec3_splat (paint_radius edit)) (11 / 10)),
      maximum = vec3_add (paint_position edit) (vec3_scale (vec3_splat (paint_radius edit)) (11 / 10))\<rparr>"

text \<open>The data after \<open>n\<close> calls of \<open>expand\<close>.\<close>

definition expandTimes :: "nat \<Rightarrow> MetavoxelData \<Rightarrow> MetavoxelData" where
  "expandTimes n d = (MetavoxelData_expand ^^ n) d"


text \<open>The instance that \<open>paintHeight\<close> returns for a spanner under a paint edit.\<close>

definition paintedInstance :: "SpannerMethods \<Rightarrow> PaintHeightfieldHeightEdit \<Rightarrow> SharedObjectPointer \<Rightarrow> SharedObjectPointer" where
  "paintedInstance sm edit spanner =
     paintHeight sm spanner (paint_position edit) (paint_radius edit) (paint_height edit)"

subsection \<open>Concrete inputs\<close>

text \<open>A plain attribute with default value 0.\<close>

definition colorAttribute :: Attribute where
  "colorAttribute = \<lparr>attributeName = ''color'', defaultValue = Encoded 0, lodThresholdMultiplier = 1\<rparr>"

text \<open>A spanners attribute: its values are object sets, its LOD threshold multiplier is 8.\<close>

definition spannersAttribute :: Attribute where
  "spannersAttribute = \<lparr>attributeName = ''spanners'', defaultValue = ObjectSet [], lodThresholdMultiplier = 8\<rparr>"

text \<open>The registry that hands out that spanners attribute.\<close>

definition exampleRegistry :: AttributeRegistry where
  "exampleRegistry = \<lparr>getSpannersAttribute = spannersAttribute\<rparr>"

text \<open>The cube from (0, 0, 0) to (1, 1, 1).\<close>

definition unitBox :: Box where
  "unitBox = \<lparr>minimum = vec3_splat 0, maximum = vec3_splat 1\<rparr>"

text \<open>
  Spanners that all span the unit cube; blending one writes its address into every
  output, painting spanner 7 yields the new instance 8, and setting a material yields
  the same instance.
\<close>

definition exampleSpanners :: SpannerMethods where
  "exampleSpanners =
     \<lparr>getBounds = (\<lambda>object. unitBox),
      getPlacementGranularity = (\<lambda>object. 1),
      getAttributes = (\<lambda>object. [colorAttribute]),
      getVoxelizedAttributes = (\<lambda>object. [colorAttribute]),
      blendAttributeValues = (\<lambda>object info force.
         (False, setOutputValues
                   (map (\<lambda>out. Some (AttributeValue colorAttribute (Encoded (int object))))
                      (outputValues info)) info)),
      paintHeight = (\<lambda>object position radius height. if object = 7 then 8 else object),
      setMaterial = (\<lambda>object spanner material color paint. object)\<rparr>"

text \<open>The update visitor for spanner 7 under that registry: voxelization size 1/4, one step.\<close>

definition exampleVisitor :: UpdateSpannerVisitor where
  "exampleVisitor =
     \<lparr>visitor_inputs = [colorAttribute, spannersAttribute],
      visitor_outputs = [colorAttribute],
      visitor_spanner = 7,
      visitor_voxelizationSize = Finite (1 / 4),
      visitor_steps = 1\<rparr>"

text \<open>A root info of size 1 whose spanner set holds spanner 7.\<close>

definition exampleParentInfo :: MetavoxelInfo where
  "exampleParentInfo =
     MetavoxelInfo (vec3_splat 0) 1 None
       [AttributeValue_of colorAttribute, AttributeValue spannersAttribute (ObjectSet [7])] [None]"

text \<open>The info of that root's first octant.\<close>

definition exampleChildInfo :: MetavoxelInfo where
  "exampleChildInfo =
     MetavoxelInfo (vec3_splat 0) (1 / 2) (Some exampleParentInfo)
       [AttributeValue_of colorAttribute, AttributeValue spannersAttribute (ObjectSet [7])] [None]"

text \<open>A box-set edit whose region is the lower half (in z) of the unit cube.\<close>

definition exampleHalfEdit :: BoxSetEdit where
  "exampleHalfEdit =
     \<lparr>boxSet_region = \<lparr>minimum = vec3_splat 0, maximum = \<lparr>vec_x = 1, vec_y = 1, vec_z = 1 / 2\<rparr>\<rparr>,
      boxSet_granularity = 1,
      boxSet_value = AttributeValue colorAttribute (Encoded 5)\<rparr>"

text \<open>
  A box-set edit whose region falls short of the lower half of the unit cube by one
  part in 2^24 in x and in y and exceeds it by 2^-24 in z; the coordinates are binary32
  values.
\<close>

definition exampleNearHalfEdit :: BoxSetEdit where
  "exampleNearHalfEdit =
     \<lparr>boxSet_region = \<lparr>minimum = vec3_splat 0,
                         maximum = \<lparr>vec_x = 16777215 / 16777216, vec_y = 16777215 / 16777216,
                                    vec_z = 8388609 / 16777216\<rparr>\<rparr>,
      boxSet_granularity = 1,
      boxSet_value = AttributeValue colorAttribute (Encoded 5)\<rparr>"

text \<open>A box-set edit whose region is the lowest quarter (in z) of the unit cube.\<close>

definition exampleQuarterEdit :: BoxSetEdit where
  "exampleQuarterEdit =
     \<lparr>boxSet_region = \<lparr>minimum = vec3_splat 0, maximum = \<lparr>vec_x = 1, vec_y = 1, vec_z = 1 / 4\<rparr>\<rparr>,
      boxSet_granularity = 1,
      boxSet_value = AttributeValue colorAttribute (Encoded 5)\<rparr>"

text \<open>
  Data of edge length 1 with spanner 7 in the spanners attribute's collection and a
  colour tree of one leaf of value 5.
\<close>

definition exampleData :: MetavoxelData where
  "exampleData =
     \<lparr>data_size = 1,
      roots = (\<lambda>a. None)(colorAttribute \<mapsto> leafNode (AttributeValue colorAttribute (Encoded 5))),
      spannerCollection = (\<lambda>a. [])(spannersAttribute := [7])\<rparr>"

text \<open>Data of edge length 1 whose colour tree is subdivided once, octant \<open>i\<close> holding \<open>i\<close>.\<close>

definition exampleSubdividedData :: MetavoxelData where
  "exampleSubdividedData =
     \<lparr>data_size = 1,
      roots = (\<lambda>a. None)(colorAttribute \<mapsto>
        MetavoxelNode (AttributeValue colorAttribute (Encoded 5))
          (map (\<lambda>i. leafNode (AttributeValue colorAttribute (Encoded (int i)))) [0..<8])),
      spannerCollection = (\<lambda>a. [])\<rparr>"

text \<open>A state with that data, no line written and no owning pointer in scope.\<close>

definition exampleRuntime :: Runtime where
  "exampleRuntime = \<lparr>runtime_data = exampleData, debugOutput = [], strongReferences = []\<rparr>"

text \<open>A remove edit for the id 7 under the spanners attribute.\<close>

definition exampleRemoveEdit :: RemoveSpannerEdit where
  "exampleRemoveEdit = \<lparr>remove_attribute = spannersAttribute, remove_id = 7\<rparr>"

text \<open>An object table that knows spanner 7 under the id 7.\<close>

definition exampleObjects :: WeakSharedObjectHash where
  "exampleObjects = (\<lambda>id. if id = 7 then Some 7 else None)"

text \<open>The empty object table.\<close>

definition noObjects :: WeakSharedObjectHash where
  "noObjects = (\<lambda>id. None)"

text \<open>A colour with a given alpha.\<close>

definition exampleColor :: "real \<Rightarrow> QColor" where
  "exampleColor a = \<lparr>redF = 1 / 5, greenF = 2 / 5, blueF = 3 / 5, alphaF = a\<rparr>"

text \<open>A material edit whose average colour has a given alpha.\<close>

definition exampleMaterialEdit :: "real \<Rightarrow> bool \<Rightarrow> HeightfieldMaterialSpannerEdit" where
  "exampleMaterialEdit a p =
     \<lparr>material_spanner = 7, material_material = 9, material_averageColor = exampleColor a,
      material_paint = p\<rparr>"

text \<open>A global-set edit of the colour 9.\<close>

definition exampleGlobalSetEdit :: GlobalSetEdit where
  "exampleGlobalSetEdit = \<lparr>globalSet_value = AttributeValue colorAttribute (Encoded 9)\<rparr>"



text \<open>
  A platform: \<open>logf\<close> at the arguments that the examples use, as the GNU C library
  computes it (there, the binary32 values nearest to the natural logarithms), and the
  \<open>int\<close> that the x86 conversion instruction yields for a float it cannot convert.
\<close>

definition examplePlatform :: Platform where
  "examplePlatform =
     \<lparr>logf = (\<lambda>x. if x = 0 then MinusInfinity
                   else if x = 2 then Finite (1453635 / 2097152)
                   else if x = 5 / 2 then Finite (1921601 / 2097152)
                   else if x = 3 then Finite (2303957 / 2097152)
                   else if x = 11863283 / 2097152 then Finite (7268175 / 4194304)
                   else if x = 6 then Finite (469699 / 262144)
                   else if x = 8 then Finite (4360905 / 2097152)
                   else NaN),
      invalidInt = - 2147483648\<rparr>"

text \<open>A registry whose spanners attribute has a given LOD threshold multiplier.\<close>

definition registryWith :: "real \<Rightarrow> AttributeRegistry" where
  "registryWith m = \<lparr>getSpannersAttribute = spannersAttribute\<lparr>lodThresholdMultiplier := m\<rparr>\<rparr>"

text \<open>A registry whose spanners attribute has the LOD threshold multiplier 2.\<close>

definition coarseRegistry :: AttributeRegistry where
  "coarseRegistry = \<lparr>getSpannersAttribute = spannersAttribute\<lparr>lodThresholdMultiplier := 2\<rparr>\<rparr>"

text \<open>A paint edit of radius 1 at the centre of the unit cube.\<close>

definition examplePaintEdit :: PaintHeightfieldHeightEdit where
  "examplePaintEdit =
     \<lparr>paint_position = vec3_splat (1 / 2), paint_radius = 1, paint_height = 3\<rparr>"

text \<open>Data whose spanners collection holds the spanners 7 and 3.\<close>

definition examplePaintData :: MetavoxelData where
  "examplePaintData = exampleData\<lparr>spannerCollection := (\<lambda>a. [])(spannersAttribute := [7, 3])\<rparr>"

text \<open>
  A paint edit of radius 1 whose position has the binary32 value of \<open>1.1f\<close> as its x
  coordinate.
\<close>

definition edgePaintEdit :: PaintHeightfieldHeightEdit where
  "edgePaintEdit =
     \<lparr>paint_position = \<lparr>vec_x = 9227469 / 8388608, vec_y = 1 / 2, vec_z = 1 / 2\<rparr>,
      paint_radius = 1, paint_height = 3\<rparr>"

text \<open>A paint edit whose radius is the largest finite binary32 value, 2^128 - 2^104.\<close>

definition hugePaintEdit :: PaintHeightfieldHeightEdit where
  "hugePaintEdit =
     \<lparr>paint_position = vec3_splat (1 / 2),
      paint_radius = 340282346638528859811704183484516925440, paint_height = 3\<rparr>"

text \<open>A box that reaches from x = -1 to x = 2^-27.\<close>

definition edgeBox :: Box where
  "edgeBox =
     \<lparr>minimum = \<lparr>vec_x = - 1, vec_y = 0, vec_z = 0\<rparr>,
      maximum = \<lparr>vec_x = 1 / 134217728, vec_y = 1, vec_z = 1\<rparr>\<rparr>"

text \<open>Spanners of which number 5 spans that box; painting a spanner yields a new instance.\<close>

definition edgeSpanners :: SpannerMethods where
  "edgeSpanners =
     exampleSpanners
       \<lparr>getBounds := (\<lambda>object. if object = 5 then edgeBox else unitBox),
        paintHeight := (\<lambda>object position radius height. object + 1)\<rparr>"

text \<open>Data whose spanners collection holds the spanner 5.\<close>

definition edgePaintData :: MetavoxelData where
  "edgePaintData = exampleData\<lparr>spannerCollection := (\<lambda>a. [])(spannersAttribute := [5])\<rparr>"



text \<open>The info of the first octant of that octant.\<close>

definition exampleGrandchildInfo :: MetavoxelInfo where
  "exampleGrandchildInfo =
     MetavoxelInfo (vec3_splat 0) (1 / 4) (Some exampleChildInfo)
       [AttributeValue_of colorAttribute, AttributeValue spannersAttribute (ObjectSet [7])] [None]"

declare walkParents.simps [simp del] resetOutputs.simps [simp del] nodeValueAt.simps [simp del]

section \<open>Properties\<close>

subsection \<open>Binary32 rounding\<close>

lemma quantumSearch_pos: "0 < q \<Longrightarrow> 0 < quantumSearch n q y"
  by (induction n q y rule: quantumSearch.induct) simp_all

lemma float32_quantum_pos: "0 < float32_quantum x"
  by (simp add: float32_quantum_def quantumSearch_pos)

lemma quantumSearch_at:
  "i \<le> n \<Longrightarrow> 0 < q \<Longrightarrow> y < 16777216 * q * 2 ^ i \<Longrightarrow> (i = 0 \<or> 16777216 * q * 2 ^ (i - 1) \<le> y) \<Longrightarrow>
   quantumSearch n q y = q * 2 ^ i"
proof (induction n q y arbitrary: i rule: quantumSearch.induct)
  case (1 q y)
  then show ?case by simp
next
  case (2 n q y)
  show ?case
  proof (cases i)
    case 0
    with 2 show ?thesis by simp
  next
    case (Suc j)
    with 2(5) have ge: "16777216 * q * 2 ^ j \<le> y" by simp
    have "(1::real) \<le> 2 ^ j" by simp
    with 2(3) have "16777216 * q \<le> 16777216 * q * 2 ^ j" by simp
    with ge have nlt: "\<not> y < 16777216 * q" by simp
    have "quantumSearch n (2 * q) y = (2 * q) * 2 ^ j"
    proof (rule 2(1)[OF nlt])
      show "j \<le> n" using 2(2) Suc by simp
      show "0 < 2 * q" using 2(3) by simp
      show "y < 16777216 * (2 * q) * 2 ^ j" using 2(4) Suc by (simp add: mult.assoc)
      show "j = 0 \<or> 16777216 * (2 * q) * 2 ^ (j - 1) \<le> y"
      proof (cases j)
        case 0 then show ?thesis by simp
      next
        case (Suc k)
        with ge show ?thesis by (simp add: mult.assoc)
      qed
    qed
    with nlt Suc show ?thesis by simp
  qed
qed

lemma quantumSearch_first:
  "0 < q \<Longrightarrow> \<exists>i\<le>n. quantumSearch n q y = q * 2 ^ i \<and> (\<forall>j\<le>n. y < 16777216 * q * 2 ^ j \<longrightarrow> i \<le> j)"
proof (induction n q y rule: quantumSearch.induct)
  case (1 q y)
  then show ?case by simp
next
  case (2 n q y)
  show ?case
  proof (cases "y < 16777216 * q")
    case True
    then show ?thesis by (intro exI[of _ 0]) simp
  next
    case False
    from 2(1)[OF False] 2(2) obtain i where i: "i \<le> n" "quantumSearch n (2 * q) y = 2 * q * 2 ^ i"
      and first: "\<forall>j\<le>n. y < 16777216 * (2 * q) * 2 ^ j \<longrightarrow> i \<le> j" by auto
    have "\<forall>j\<le>Suc n. y < 16777216 * q * 2 ^ j \<longrightarrow> Suc i \<le> j"
    proof (intro allI impI)
      fix j assume j: "j \<le> Suc n" "y < 16777216 * q * 2 ^ j"
      show "Suc i \<le> j"
      proof (cases j)
        case 0
        with j False show ?thesis by simp
      next
        case (Suc k)
        with j first show ?thesis by (simp add: mult.assoc)
      qed
    qed
    with i False show ?thesis by (intro exI[of _ "Suc i"]) simp
  qed
qed

lemma float32_quantum_at:
  assumes "i \<le> 253" and "q = 2 ^ i / 2 ^ 149" and "\<bar>x\<bar> < 16777216 * q" and "i = 0 \<or> 8388608 * q \<le> \<bar>x\<bar>"
  shows "float32_quantum x = q"
proof -
  have "quantumSearch 253 (1 / 2 ^ 149) \<bar>x\<bar> = (1 / 2 ^ 149) * 2 ^ i"
  proof (rule quantumSearch_at[OF assms(1)])
    show "(0::real) < 1 / 2 ^ 149" by simp
    show "\<bar>x\<bar> < 16777216 * (1 / 2 ^ 149) * 2 ^ i" using assms(2,3) by simp
    show "i = 0 \<or> 16777216 * (1 / 2 ^ 149) * 2 ^ (i - 1) \<le> \<bar>x\<bar>"
    proof (cases i)
      case 0 then show ?thesis by simp
    next
      case (Suc j)
      with assms(4) have "8388608 * q \<le> \<bar>x\<bar>" by simp
      moreover have "q = 2 * (2 ^ j / 2 ^ 149)" using assms(2) Suc by simp
      ultimately show ?thesis using Suc by simp
    qed
  qed
  then show ?thesis using assms(2) by (simp add: float32_quantum_def)
qed

lemma round32_at:
  assumes "float32_quantum x = q" and "roundTiesToEven (x / q) = n"
    and "\<bar>of_int n * q\<bar> < 2 ^ 128" 
  shows "round32 x = Finite (of_int n * q)"
  using assms by (simp add: round32_def Let_def abs_less_iff)

lemma roundTiesToEven_of_int: "roundTiesToEven (of_int n) = n"
  by (simp add: roundTiesToEven_def)

lemma roundTiesToEven_error: "\<bar>of_int (roundTiesToEven y) - y\<bar> \<le> 1 / 2"
  unfolding roundTiesToEven_def by (auto simp: abs_le_iff)

lemma round32_error:
  assumes "round32 x = Finite r"
  shows "\<bar>r - x\<bar> \<le> float32_quantum x / 2"
proof -
  let ?q = "float32_quantum x"
  have q: "0 < ?q" by (rule float32_quantum_pos)
  from assms have r: "r = of_int (roundTiesToEven (x / ?q)) * ?q"
    by (simp add: round32_def Let_def split: if_splits)
  have "r - x = (of_int (roundTiesToEven (x / ?q)) - x / ?q) * ?q"
    using q by (simp add: r field_simps)
  then have "\<bar>r - x\<bar> = \<bar>of_int (roundTiesToEven (x / ?q)) - x / ?q\<bar> * ?q"
    using q by (simp add: abs_mult)
  also have "\<dots> \<le> 1 / 2 * ?q"
    using roundTiesToEven_error[of "x / ?q"] q by (intro mult_right_mono) simp_all
  finally show ?thesis by simp
qed

lemma round32_exact:
  assumes "x / float32_quantum x = of_int m" and "\<bar>x\<bar> < 2 ^ 128"
  shows "round32 x = Finite x"
proof -
  have q: "float32_quantum x \<noteq> 0" using float32_quantum_pos[of x] by simp
  have "of_int (roundTiesToEven (x / float32_quantum x)) * float32_quantum x =
        x / float32_quantum x * float32_quantum x"
    by (simp only: assms(1) roundTiesToEven_of_int)
  also have "\<dots> = x" using q by simp
  finally have r: "of_int (roundTiesToEven (x / float32_quantum x)) * float32_quantum x = x" .
  show ?thesis
    unfolding round32_def Let_def r using assms(2) by (simp add: abs_less_iff)
qed

lemma round32_dyadic:
  assumes "\<bar>n\<bar> < 16777216" and "k \<le> 149"
  shows "round32 (of_int n / 2 ^ k) = Finite (of_int n / 2 ^ k)"
proof -
  let ?x = "of_int n / (2::real) ^ k"
  from quantumSearch_first[of "1 / 2 ^ 149" 253 "\<bar>?x\<bar>"]
  obtain i where i: "i \<le> 253" and q: "float32_quantum ?x = 1 / 2 ^ 149 * 2 ^ i"
    and first: "\<forall>j\<le>253. \<bar>?x\<bar> < 16777216 * (1 / 2 ^ 149) * 2 ^ j \<longrightarrow> i \<le> j"
    by (auto simp: float32_quantum_def)
  have "\<bar>?x\<bar> = of_int \<bar>n\<bar> / 2 ^ k" by (simp add: abs_divide)
  also have "\<dots> < 16777216 / 2 ^ k"
    using assms(1) by (intro divide_strict_right_mono) simp_all
  also have "\<dots> = 16777216 * (1 / 2 ^ 149) * 2 ^ (149 - k)"
    using assms(2) by (simp add: power_diff)
  finally have "i \<le> 149 - k" using first assms(2) by simp
  then obtain m where m: "149 - k = i + m" using le_Suc_ex by blast
  with assms(2) have k: "149 = k + i + m" by simp
  have "?x / (1 / 2 ^ 149 * 2 ^ i) = of_int n * (2 ^ 149 / (2 ^ k * 2 ^ i))"
    by simp
  also have "(2::real) ^ 149 / (2 ^ k * 2 ^ i) = 2 ^ m"
    unfolding k by (simp add: power_add)
  finally have quot: "?x / float32_quantum ?x = of_int (n * 2 ^ m)"
    by (simp add: q)
  have "\<bar>?x\<bar> < 16777216" 
  proof -
    have "\<bar>?x\<bar> = of_int \<bar>n\<bar> / 2 ^ k" by (simp add: abs_divide)
    also have "\<dots> \<le> of_int \<bar>n\<bar>"
      using mult_left_mono[of 1 "(2::real) ^ k" "of_int \<bar>n\<bar>"] by (simp add: field_simps)
    also have "\<dots> < 16777216" using assms(1) by simp
    finally show ?thesis .
  qed
  then have "\<bar>?x\<bar> < 2 ^ 128" by simp
  with quot show ?thesis by (rule round32_exact)
qed

lemma quantumSearch_last:
  "0 < q \<Longrightarrow> (\<forall>j<n. 16777216 * q * 2 ^ j \<le> y) \<Longrightarrow> quantumSearch n q y = q * 2 ^ n"
proof (induction n q y rule: quantumSearch.induct)
  case (1 q y)
  then show ?case by simp
next
  case (2 n q y)
  from 2(3) have "16777216 * q * 2 ^ 0 \<le> y" by blast
  then have nlt: "\<not> y < 16777216 * q" by simp
  have "quantumSearch n (2 * q) y = 2 * q * 2 ^ n"
  proof (rule 2(1)[OF nlt])
    show "0 < 2 * q" using 2(2) by simp
    show "\<forall>j<n. 16777216 * (2 * q) * 2 ^ j \<le> y"
    proof (intro allI impI)
      fix j assume "j < n"
      then have "Suc j < Suc n" by simp
      with 2(3) have "16777216 * q * 2 ^ Suc j \<le> y" by blast
      then show "16777216 * (2 * q) * 2 ^ j \<le> y" by (simp add: mult.assoc)
    qed
  qed
  with nlt show ?case by simp
qed

lemma roundTiesToEven_ge: "of_int n \<le> y \<Longrightarrow> n \<le> roundTiesToEven y"
proof -
  assume "of_int n \<le> y"
  then have "n \<le> \<lfloor>y\<rfloor>" by (simp add: le_floor_iff)
  then show ?thesis by (simp add: roundTiesToEven_def)
qed

lemma round32_overflow:
  assumes "2 ^ 128 \<le> x"
  shows "round32 x = PlusInfinity"
proof -
  have "quantumSearch 253 (1 / 2 ^ 149) \<bar>x\<bar> = 1 / 2 ^ 149 * 2 ^ 253"
  proof (rule quantumSearch_last)
    show "(0::real) < 1 / 2 ^ 149" by simp
    show "\<forall>j<253. 16777216 * (1 / 2 ^ 149) * 2 ^ j \<le> \<bar>x\<bar>"
    proof (intro allI impI)
      fix j :: nat assume "j < 253"
      then have "(2::real) ^ j \<le> 2 ^ 253" by (intro power_increasing) simp_all
      then have "16777216 * (1 / 2 ^ 149) * (2::real) ^ j \<le> 16777216 * (1 / 2 ^ 149) * 2 ^ 253"
        by (intro mult_left_mono) simp_all
      also have "\<dots> = 2 ^ 128" by simp
      finally show "16777216 * (1 / 2 ^ 149) * 2 ^ j \<le> \<bar>x\<bar>" using assms by simp
    qed
  qed
  then have q: "float32_quantum x = 2 ^ 104" by (simp add: float32_quantum_def)
  have "(of_int 16777216 :: real) \<le> x / 2 ^ 104" using assms by (simp add: field_simps)
  then have "16777216 \<le> roundTiesToEven (x / 2 ^ 104)" by (rule roundTiesToEven_ge)
  then have "(16777216 :: real) \<le> of_int (roundTiesToEven (x / 2 ^ 104))" by linarith
  then have "(16777216 :: real) * 2 ^ 104 \<le> of_int (roundTiesToEven (x / 2 ^ 104)) * 2 ^ 104"
    by (intro mult_right_mono) simp_all
  then have "(2::real) ^ 128 \<le> of_int (roundTiesToEven (x / 2 ^ 104)) * 2 ^ 104" by simp
  then show ?thesis
    unfolding round32_def Let_def q by (simp del: power_numeral)
qed

lemma round32_values:
  "round32 0 = Finite 0"
  "round32 1 = Finite 1"
  "round32 2 = Finite 2"
  "round32 (- 1) = Finite (- 1)"
  "round32 (1 / 2) = Finite (1 / 2)"
  "round32 (1 / 4) = Finite (1 / 4)"
  "round32 (16777215 / 16777216) = Finite (16777215 / 16777216)"
  "round32 (8388609 / 16777216) = Finite (8388609 / 16777216)"
  using round32_dyadic[of 0 0] round32_dyadic[of 1 0] round32_dyadic[of 2 0] round32_dyadic[of "- 1" 0]
    round32_dyadic[of 1 1] round32_dyadic[of 1 2] round32_dyadic[of 16777215 24]
    round32_dyadic[of 8388609 24]
  by simp_all

subsection \<open>The box-set visitor\<close>

lemma assignOutput_0:
  "outputValues info \<noteq> [] \<Longrightarrow> assignOutput 0 v info = Some (withOutput0 v info)"
  by (cases "outputValues info") (simp_all add: assignOutput_def withOutput0_def)

lemma assignOutput_0_update:
  "outputValues info \<noteq> [] \<Longrightarrow>
   assignOutput 0 v info =
     Some (MetavoxelInfo (info_minimum info) (info_size info) (parentInfo info) (inputValues info)
             ((outputValues info)[0 := Some v]))"
  by (simp add: assignOutput_def setOutputValues_def)

lemma BoxSetEditVisitor_visit_eq:
  assumes "outputValues info \<noteq> []"
  shows "BoxSetEditVisitor_visit edit info =
    (if fle (f_x (intersectionExtent edit info)) (Finite 0) \<or>
        fle (f_y (intersectionExtent edit info)) (Finite 0) \<or>
        fle (f_z (intersectionExtent edit info)) (Finite 0)
     then Some (STOP_RECURSION, info)
     else if fle (Finite 1) (overlapFraction edit info)
     then Some (STOP_RECURSION,
                MetavoxelInfo (info_minimum info) (info_size info) (parentInfo info) (inputValues info)
                  ((outputValues info)[0 := Some (boxSet_value edit)]))
     else if info_size info \<le> boxSet_granularity edit
     then Some (STOP_RECURSION,
                if fle (Finite (1 / 2)) (overlapFraction edit info)
                then MetavoxelInfo (info_minimum info) (info_size info) (parentInfo info) (inputValues info)
                       ((outputValues info)[0 := Some (boxSet_value edit)])
                else info)
     else Some (DEFAULT_ORDER, info))"
  by (simp add: BoxSetEditVisitor_visit_def intersectionExtent_def overlapFraction_def Let_def
      assignOutput_0_update[OF assms])

lemmas extent_defs = intersectionExtent_def exampleParentInfo_def vec3f_sub_def vec3f_min_def
  vec3f_add_def float3_def vec3_splat_def glm_max_def fmin_def fsub_def

lemma halfEdit_extent:
  "intersectionExtent exampleHalfEdit exampleParentInfo = \<lparr>f_x = Finite 1, f_y = Finite 1, f_z = Finite (1 / 2)\<rparr>"
  by (simp add: extent_defs exampleHalfEdit_def round32_values)

lemma halfEdit_fraction: "overlapFraction exampleHalfEdit exampleParentInfo = Finite (1 / 2)"
  by (simp add: overlapFraction_def halfEdit_extent round32_values) (simp add: exampleParentInfo_def round32_values)

lemma quarterEdit_extent:
  "intersectionExtent exampleQuarterEdit exampleParentInfo = \<lparr>f_x = Finite 1, f_y = Finite 1, f_z = Finite (1 / 4)\<rparr>"
  by (simp add: extent_defs exampleQuarterEdit_def round32_values)

lemma quarterEdit_fraction: "overlapFraction exampleQuarterEdit exampleParentInfo = Finite (1 / 4)"
  by (simp add: overlapFraction_def quarterEdit_extent round32_values) (simp add: exampleParentInfo_def round32_values)

lemma nearHalfEdit_extent:
  "intersectionExtent exampleNearHalfEdit exampleParentInfo =
     \<lparr>f_x = Finite (16777215 / 16777216), f_y = Finite (16777215 / 16777216),
      f_z = Finite (8388609 / 16777216)\<rparr>"
  by (simp add: extent_defs exampleNearHalfEdit_def round32_values)

lemma round32_nearHalf_xy:
  "round32 (281474943156225 / 281474976710656) = Finite (8388607 / 8388608)"
proof -
  have q: "float32_quantum (281474943156225 / 281474976710656) = 1 / 16777216"
    by (rule float32_quantum_at[where i = 125]) simp_all
  show ?thesis
    using round32_at[OF q, of 16777214] by (simp add: roundTiesToEven_def)
qed

lemma round32_nearHalf_xyz:
  "round32 (70368744177663 / 140737488355328) = Finite (1 / 2)"
proof -
  have q: "float32_quantum (70368744177663 / 140737488355328) = 1 / 33554432"
    by (rule float32_quantum_at[where i = 124]) simp_all
  show ?thesis
    using round32_at[OF q, of 16777216] by (simp add: roundTiesToEven_def)
qed

lemma nearHalfEdit_fraction: "overlapFraction exampleNearHalfEdit exampleParentInfo = Finite (1 / 2)"
  by (simp add: overlapFraction_def nearHalfEdit_extent round32_nearHalf_xy round32_nearHalf_xyz)
     (simp add: exampleParentInfo_def round32_values)

lemma nearHalfEdit_overlap:
  "overlapVolume exampleNearHalfEdit exampleParentInfo < 1 / 2"
  "\<not> Box_degenerate (Box_intersection (info_getBounds exampleParentInfo) (boxSet_region exampleNearHalfEdit))"
  by (simp_all add: overlapVolume_def Box_degenerate_def Box_volume_def Box_extent_def Box_intersection_def
      info_getBounds_def exampleNearHalfEdit_def exampleParentInfo_def vec3_sub_def vec3_add_def
      vec3_splat_def glm_min_def glm_max_def)

text \<open>
  C1, as amended. On an info that has an output slot, BoxSetEditVisitor::visit decides in
  this order, on the quantities it computes in binary32 arithmetic: when a component of
  the computed extent of the intersection of the node's cube with the edit region is not
  positive it stops and leaves the info as it is; else when the computed quotient of the
  intersection's volume by the node's volume is at least 1 it assigns the edit's value
  to output 0 and stops; else when the node's size is at most the granularity it stops,
  having assigned the value if and only if that computed quotient is at least 0.5; else
  it asks for subdivision and leaves the info as it is. The extent is the node's
  minimum plus its size, rounded, cut at the region's maximum, minus the larger of the
  two minima, rounded; the quotient is the product of the extent's components, rounded
  after either multiplication, divided by the cube of the node's size, rounded alike.
\<close>

theorem BoxSetEditVisitor_visit_cases:
  assumes "outputValues info \<noteq> []"
  shows "BoxSetEditVisitor_visit edit info =
    (if fle (f_x (intersectionExtent edit info)) (Finite 0) \<or>
        fle (f_y (intersectionExtent edit info)) (Finite 0) \<or>
        fle (f_z (intersectionExtent edit info)) (Finite 0)
     then Some (STOP_RECURSION, info)
     else if fle (Finite 1) (overlapFraction edit info)
     then Some (STOP_RECURSION,
                MetavoxelInfo (info_minimum info) (info_size info) (parentInfo info) (inputValues info)
                  ((outputValues info)[0 := Some (boxSet_value edit)]))
     else if info_size info \<le> boxSet_granularity edit
     then Some (STOP_RECURSION,
                if fle (Finite (1 / 2)) (overlapFraction edit info)
                then MetavoxelInfo (info_minimum info) (info_size info) (parentInfo info) (inputValues info)
                       ((outputValues info)[0 := Some (boxSet_value edit)])
                else info)
     else Some (DEFAULT_ORDER, info)) \<and>
   f_x (intersectionExtent edit info) =
     fsub (fmin (fadd (Finite (vec_x (info_minimum info))) (Finite (info_size info)))
             (Finite (vec_x (maximum (boxSet_region edit)))))
          (Finite (max (vec_x (info_minimum info)) (vec_x (minimum (boxSet_region edit))))) \<and>
   f_y (intersectionExtent edit info) =
     fsub (fmin (fadd (Finite (vec_y (info_minimum info))) (Finite (info_size info)))
             (Finite (vec_y (maximum (boxSet_region edit)))))
          (Finite (max (vec_y (info_minimum info)) (vec_y (minimum (boxSet_region edit))))) \<and>
   f_z (intersectionExtent edit info) =
     fsub (fmin (fadd (Finite (vec_z (info_minimum info))) (Finite (info_size info)))
             (Finite (vec_z (maximum (boxSet_region edit)))))
          (Finite (max (vec_z (info_minimum info)) (vec_z (minimum (boxSet_region edit))))) \<and>
   overlapFraction edit info =
     fdiv (fmul (fmul (f_x (intersectionExtent edit info)) (f_y (intersectionExtent edit info)))
             (f_z (intersectionExtent edit info)))
          (fmul (fmul (Finite (info_size info)) (Finite (info_size info))) (Finite (info_size info)))"
proof -
  have ext:
    "f_x (intersectionExtent edit info) =
       fsub (fmin (fadd (Finite (vec_x (info_minimum info))) (Finite (info_size info)))
               (Finite (vec_x (maximum (boxSet_region edit)))))
            (Finite (max (vec_x (info_minimum info)) (vec_x (minimum (boxSet_region edit)))))"
    "f_y (intersectionExtent edit info) =
       fsub (fmin (fadd (Finite (vec_y (info_minimum info))) (Finite (info_size info)))
               (Finite (vec_y (maximum (boxSet_region edit)))))
            (Finite (max (vec_y (info_minimum info)) (vec_y (minimum (boxSet_region edit)))))"
    "f_z (intersectionExtent edit info) =
       fsub (fmin (fadd (Finite (vec_z (info_minimum info))) (Finite (info_size info)))
               (Finite (vec_z (maximum (boxSet_region edit)))))
            (Finite (max (vec_z (info_minimum info)) (vec_z (minimum (boxSet_region edit)))))"
    by (simp_all add: intersectionExtent_def vec3f_sub_def vec3f_min_def vec3f_add_def float3_def
        vec3_splat_def glm_max_def)
  have frac: "overlapFraction edit info =
     fdiv (fmul (fmul (f_x (intersectionExtent edit info)) (f_y (intersectionExtent edit info)))
             (f_z (intersectionExtent edit info)))
          (fmul (fmul (Finite (info_size info)) (Finite (info_size info))) (Finite (info_size info)))"
    by (rule overlapFraction_def)
  from BoxSetEditVisitor_visit_eq[OF assms, of edit] ext frac show ?thesis
    by (intro conjI)
qed

text \<open>
  A node of size 1 at the granularity limit: a region that covers exactly half of it has
  the computed quotient 0.5 and assigns the value, a region that covers a quarter of it
  leaves it unchanged.
\<close>

theorem BoxSetEditVisitor_visit_cases_witness:
  "overlapFraction exampleHalfEdit exampleParentInfo = Finite (1 / 2) \<and>
   BoxSetEditVisitor_visit exampleHalfEdit exampleParentInfo =
     Some (STOP_RECURSION,
           MetavoxelInfo (vec3_splat 0) 1 None
             [AttributeValue_of colorAttribute, AttributeValue spannersAttribute (ObjectSet [7])]
             [Some (AttributeValue colorAttribute (Encoded 5))]) \<and>
   overlapFraction exampleQuarterEdit exampleParentInfo = Finite (1 / 4) \<and>
   BoxSetEditVisitor_visit exampleQuarterEdit exampleParentInfo =
     Some (STOP_RECURSION,
           MetavoxelInfo (vec3_splat 0) 1 None
             [AttributeValue_of colorAttribute, AttributeValue spannersAttribute (ObjectSet [7])]
             [None])"
proof -
  have out: "outputValues exampleParentInfo \<noteq> []"
    by (simp add: exampleParentInfo_def)
  have half: "BoxSetEditVisitor_visit exampleHalfEdit exampleParentInfo =
     Some (STOP_RECURSION,
           MetavoxelInfo (vec3_splat 0) 1 None
             [AttributeValue_of colorAttribute, AttributeValue spannersAttribute (ObjectSet [7])]
             [Some (AttributeValue colorAttribute (Encoded 5))])"
    using BoxSetEditVisitor_visit_cases[OF out, of exampleHalfEdit]
    by (simp add: halfEdit_extent halfEdit_fraction) (simp add: exampleParentInfo_def exampleHalfEdit_def)
  have quarter: "BoxSetEditVisitor_visit exampleQuarterEdit exampleParentInfo =
     Some (STOP_RECURSION,
           MetavoxelInfo (vec3_splat 0) 1 None
             [AttributeValue_of colorAttribute, AttributeValue spannersAttribute (ObjectSet [7])]
             [None])"
    using BoxSetEditVisitor_visit_cases[OF out, of exampleQuarterEdit]
    by (simp add: quarterEdit_extent quarterEdit_fraction) (simp add: exampleParentInfo_def exampleQuarterEdit_def)
  from half quarter halfEdit_fraction quarterEdit_fraction show ?thesis by simp
qed

text \<open>
  A node of size 1 at the granularity limit and a region that covers less than half of
  it: (1 - 2^-24)^2 * (1/2 + 2^-24). The product of the first two extents rounds to
  1 - 2^-23, its product with the third is 1/2 - 2^-47 and rounds to 0.5: the program
  assigns the value, where the stated visit leaves the node unchanged.
\<close>

theorem BoxSetEditVisitor_visit_claimed_counterexample:
  "overlapVolume exampleNearHalfEdit exampleParentInfo < 1 / 2 \<and>
   BoxSetEditVisitor_visit_claimed exampleNearHalfEdit exampleParentInfo =
     Some (STOP_RECURSION,
           MetavoxelInfo (vec3_splat 0) 1 None
             [AttributeValue_of colorAttribute, AttributeValue spannersAttribute (ObjectSet [7])]
             [None]) \<and>
   BoxSetEditVisitor_visit exampleNearHalfEdit exampleParentInfo =
     Some (STOP_RECURSION,
           MetavoxelInfo (vec3_splat 0) 1 None
             [AttributeValue_of colorAttribute, AttributeValue spannersAttribute (ObjectSet [7])]
             [Some (AttributeValue colorAttribute (Encoded 5))]) \<and>
   BoxSetEditVisitor_visit exampleNearHalfEdit exampleParentInfo \<noteq>
     BoxSetEditVisitor_visit_claimed exampleNearHalfEdit exampleParentInfo"
proof -
  have out: "outputValues exampleParentInfo \<noteq> []"
    by (simp add: exampleParentInfo_def)
  have less: "overlapVolume exampleNearHalfEdit exampleParentInfo < 1 / 2"
    by (rule nearHalfEdit_overlap(1))
  have claimed: "BoxSetEditVisitor_visit_claimed exampleNearHalfEdit exampleParentInfo =
     Some (STOP_RECURSION,
           MetavoxelInfo (vec3_splat 0) 1 None
             [AttributeValue_of colorAttribute, AttributeValue spannersAttribute (ObjectSet [7])]
             [None])"
    using nearHalfEdit_overlap
    by (simp add: BoxSetEditVisitor_visit_claimed_def)
       (simp add: exampleParentInfo_def exampleNearHalfEdit_def)
  have code: "BoxSetEditVisitor_visit exampleNearHalfEdit exampleParentInfo =
     Some (STOP_RECURSION,
           MetavoxelInfo (vec3_splat 0) 1 None
             [AttributeValue_of colorAttribute, AttributeValue spannersAttribute (ObjectSet [7])]
             [Some (AttributeValue colorAttribute (Encoded 5))])"
    using BoxSetEditVisitor_visit_eq[OF out, of exampleNearHalfEdit]
    by (simp add: nearHalfEdit_extent nearHalfEdit_fraction)
       (simp add: exampleParentInfo_def exampleNearHalfEdit_def)
  from less claimed code show ?thesis by simp
qed

subsection \<open>The update visitor\<close>

lemma walkParents_None: "walkParents i n None = None"
  by (subst walkParents.simps) simp

lemma ancestorAt_None: "ancestorAt n None = None"
  by (cases n) simp_all

lemma walkParents_ancestorAt: "walkParents i n p = ancestorAt (nat (n - i)) p"
proof (induction i n p rule: walkParents.induct)
  case (1 i n p)
  show ?case
  proof (cases "i < n \<and> p \<noteq> None")
    case True
    then obtain q where q: "p = Some q" by auto
    from True have "nat (n - i) = Suc (nat (n - (i + 1)))" by linarith
    with True q "1.IH" show ?thesis
      by (subst walkParents.simps) simp
  next
    case False
    then show ?thesis
      by (subst walkParents.simps) (auto simp: ancestorAt_None)
  qed
qed

lemma setOutputValues_sel:
  "info_minimum (setOutputValues outs info) = info_minimum info"
  "info_size (setOutputValues outs info) = info_size info"
  "parentInfo (setOutputValues outs info) = parentInfo info"
  "inputValues (setOutputValues outs info) = inputValues info"
  "outputValues (setOutputValues outs info) = outs"
  by (simp_all add: setOutputValues_def)

lemma setOutputValues_twice: "setOutputValues a (setOutputValues b info) = setOutputValues a info"
  by (simp add: setOutputValues_def)

lemma setOutputValues_same: "setOutputValues (outputValues info) info = info"
  by (simp add: setOutputValues_def)

lemma resetOutputs_general:
  "i \<le> length outs \<Longrightarrow> length (outputValues info) = length outs \<Longrightarrow>
   resetOutputs i outs info =
     Some (setOutputValues (take i (outputValues info) @ map (\<lambda>a. Some (AttributeValue_of a)) (drop i outs)) info)"
proof (induction i outs info rule: resetOutputs.induct)
  case (1 i outs info)
  show ?case
  proof (cases "i < length outs")
    case True
    let ?info' = "setOutputValues ((outputValues info)[i := Some (AttributeValue_of (outs ! i))]) info"
    from True "1.prems" have a: "assignOutput i (AttributeValue_of (outs ! i)) info = Some ?info'"
      by (simp add: assignOutput_def)
    have "resetOutputs (i + 1) outs ?info' =
      Some (setOutputValues (take (i + 1) (outputValues ?info') @
              map (\<lambda>a. Some (AttributeValue_of a)) (drop (i + 1) outs)) ?info')"
      using True "1.prems" by (intro "1.IH"[OF True a]) (simp_all add: setOutputValues_sel)
    moreover have "take (i + 1) (outputValues ?info') @ map (\<lambda>a. Some (AttributeValue_of a)) (drop (i + 1) outs)
        = take i (outputValues info) @ map (\<lambda>a. Some (AttributeValue_of a)) (drop i outs)"
      using True "1.prems"
      by (simp add: setOutputValues_sel take_Suc_conv_app_nth Cons_nth_drop_Suc[symmetric])
    ultimately show ?thesis
      using True a by (subst resetOutputs.simps) (simp add: setOutputValues_twice)
  next
    case False
    with "1.prems" have "i = length outs" by simp
    with "1.prems" show ?thesis
      by (subst resetOutputs.simps) (simp add: setOutputValues_same)
  qed
qed

lemma resetOutputs_all:
  "length (outputValues info) = length outs \<Longrightarrow>
   resetOutputs 0 outs info = Some (setOutputValues (map (\<lambda>a. Some (AttributeValue_of a)) outs) info)"
  using resetOutputs_general[of 0 outs info] by simp

lemma blendAll_size:
  "blendKeepsSize sm \<Longrightarrow> info_size (blendAll sm objects info) = info_size info"
  by (induction objects arbitrary: info) (simp_all add: blendKeepsSize_def)

lemma UpdateSpannerVisitor_visit_eq:
  assumes "length (outputValues info) = length (visitor_outputs v)"
  shows "UpdateSpannerVisitor_visit sm v info =
     (if \<not> Box_intersects (info_getBounds info) (getBounds sm (visitor_spanner v))
      then Some (STOP_RECURSION, info)
      else case ancestorAt (Suc (nat (visitor_steps v))) (Some info) of
             None \<Rightarrow> Some (updateOrder v info, defaultOutputs v info)
           | Some a \<Rightarrow>
               map_option (\<lambda>objects. (updateOrder v (blendAll sm objects (defaultOutputs v info)),
                                       blendAll sm objects (defaultOutputs v info)))
                 (inputObjectSet (length (visitor_outputs v)) a))"
proof -
  have size: "info_size (defaultOutputs v info) = info_size info"
    by (simp add: defaultOutputs_def setOutputValues_sel)
  show ?thesis
    using assms
    by (simp add: UpdateSpannerVisitor_visit_def resetOutputs_all walkParents_ancestorAt
        defaultOutputs_def[symmetric] updateOrder_def size split: option.splits)
qed

lemma updateOrder_blendAll:
  "blendKeepsSize sm \<Longrightarrow>
   updateOrder v (blendAll sm objects (defaultOutputs v info)) = updateOrder v info"
  by (simp add: updateOrder_def blendAll_size defaultOutputs_def setOutputValues_sel)

lemma exampleChild_intersects:
  "Box_intersects (info_getBounds exampleChildInfo) (getBounds exampleSpanners (visitor_spanner exampleVisitor))"
  by (simp add: Box_intersects_def info_getBounds_def exampleChildInfo_def exampleSpanners_def
      unitBox_def vec3_splat_def vec3_add_def)

lemma exampleParent_intersects:
  "Box_intersects (info_getBounds exampleParentInfo) (getBounds exampleSpanners (visitor_spanner exampleVisitor))"
  by (simp add: Box_intersects_def info_getBounds_def exampleParentInfo_def exampleSpanners_def
      unitBox_def vec3_splat_def vec3_add_def)

text \<open>
  C2, as amended. On an info with one output slot per output attribute,
  UpdateSpannerVisitor::visit stops at once, the info untouched, when the node's bounds
  do not intersect the spanner's. Otherwise it sets every output to its attribute's
  default and looks for the ancestor \<open>steps + 1\<close> \<open>parentInfo\<close> links above the node
  (the node's parent, then up to \<open>steps\<close> links more; a negative \<open>steps\<close> counts as
  none). When the chain is that long it blends every spanner of that ancestor's spanner
  set into the node, in the set's order; when the chain ends earlier it blends nothing.
  It asks for subdivision if and only if the size of the resulting info exceeds the
  voxelization size, and that size is the node's whenever blending leaves sizes alone.
\<close>

theorem UpdateSpannerVisitor_visit_walk:
  assumes "length (outputValues info) = length (visitor_outputs v)"
  shows "UpdateSpannerVisitor_visit sm v info =
     (if \<not> Box_intersects (info_getBounds info) (getBounds sm (visitor_spanner v))
      then Some (STOP_RECURSION, info)
      else case ancestorAt (Suc (nat (visitor_steps v))) (Some info) of
             None \<Rightarrow> Some (updateOrder v info, defaultOutputs v info)
           | Some a \<Rightarrow>
               map_option (\<lambda>objects. (updateOrder v (blendAll sm objects (defaultOutputs v info)),
                                       blendAll sm objects (defaultOutputs v info)))
                 (inputObjectSet (length (visitor_outputs v)) a))
     \<and> (blendKeepsSize sm \<longrightarrow>
          updateOrder v (blendAll sm objects (defaultOutputs v info)) = updateOrder v info)"
  using UpdateSpannerVisitor_visit_eq[OF assms] updateOrder_blendAll by blast

theorem UpdateSpannerVisitor_visit_walk_witness:
  "UpdateSpannerVisitor_visit exampleSpanners exampleVisitor exampleChildInfo =
     Some (DEFAULT_ORDER, defaultOutputs exampleVisitor exampleChildInfo)"
  using UpdateSpannerVisitor_visit_walk[of exampleChildInfo exampleVisitor exampleSpanners]
    exampleChild_intersects
  by (simp add: exampleChildInfo_def exampleVisitor_def exampleParentInfo_def updateOrder_def)

text \<open>
  With \<open>steps = 1\<close>, on the first octant of a root whose spanner set holds spanner 7.
  Counting from the node, one link up is the root, whose spanner the stated visit blends
  into the node; counting from the node's parent, one link up there is no info. The
  program's walk ends where there is no info, blends nothing and returns the node with
  its outputs at their defaults.
\<close>

theorem UpdateSpannerVisitor_visit_claimed_counterexample:
  "UpdateSpannerVisitor_visit exampleSpanners exampleVisitor exampleChildInfo \<noteq>
     UpdateSpannerVisitor_visit_claimed False exampleSpanners exampleVisitor exampleChildInfo \<and>
   UpdateSpannerVisitor_visit exampleSpanners exampleVisitor exampleChildInfo \<noteq>
     UpdateSpannerVisitor_visit_claimed True exampleSpanners exampleVisitor exampleChildInfo"
proof -
  have fromNode: "UpdateSpannerVisitor_visit_claimed False exampleSpanners exampleVisitor exampleChildInfo =
     Some (DEFAULT_ORDER,
       setOutputValues [Some (AttributeValue colorAttribute (Encoded 7))] exampleChildInfo)"
    using exampleChild_intersects
    by (simp add: UpdateSpannerVisitor_visit_claimed_def)
       (simp add: exampleChildInfo_def exampleVisitor_def exampleParentInfo_def updateOrder_def
          inputObjectSet_def defaultOutputs_def exampleSpanners_def setOutputValues_def)
  have fromParent: "UpdateSpannerVisitor_visit_claimed True exampleSpanners exampleVisitor exampleChildInfo = None"
    using exampleChild_intersects
    by (simp add: UpdateSpannerVisitor_visit_claimed_def)
       (simp add: exampleChildInfo_def exampleVisitor_def exampleParentInfo_def)
  have code: "UpdateSpannerVisitor_visit exampleSpanners exampleVisitor exampleChildInfo =
     Some (DEFAULT_ORDER,
       setOutputValues [Some (AttributeValue colorAttribute (Encoded 0))] exampleChildInfo)"
    using UpdateSpannerVisitor_visit_eq[of exampleChildInfo exampleVisitor exampleSpanners]
      exampleChild_intersects
    by (simp add: exampleChildInfo_def exampleVisitor_def exampleParentInfo_def updateOrder_def
          defaultOutputs_def AttributeValue_of_def colorAttribute_def)
  show ?thesis
    unfolding fromNode fromParent code by (simp add: setOutputValues_def)
qed

text \<open>
  C10. On a node whose bounds intersect the spanner's, whose \<open>parentInfo\<close> chain ends
  before the walk does (the walk reaches a null \<open>parentInfo\<close>) and which has one output
  slot per output attribute, UpdateSpannerVisitor::visit blends no spanner: the info it
  leaves is the visited one with every output replaced by its attribute's default value
  and nothing else changed, and it asks for subdivision if and only if the node's size
  exceeds the voxelization size.
\<close>

theorem UpdateSpannerVisitor_visit_short_chain:
  assumes "Box_intersects (info_getBounds info) (getBounds sm (visitor_spanner v))"
      and "walkParents 0 (visitor_steps v) (parentInfo info) = None"
      and "length (outputValues info) = length (visitor_outputs v)"
  shows "UpdateSpannerVisitor_visit sm v info =
           Some (if flt (visitor_voxelizationSize v) (Finite (info_size info))
                 then DEFAULT_ORDER else STOP_RECURSION,
                 MetavoxelInfo (info_minimum info) (info_size info) (parentInfo info) (inputValues info)
                   (map (\<lambda>a. Some (AttributeValue a (defaultValue a))) (visitor_outputs v)))"
  using assms
  by (simp add: UpdateSpannerVisitor_visit_def resetOutputs_all setOutputValues_def AttributeValue_of_def)

text \<open>
  With one step, on the first octant of a root whose spanner set holds spanner 7: the
  walk starts at the root, follows one link and ends without an info. The output, unset
  before, is the colour's default 0 and not the 7 that blending the root's spanner would
  write; the node, of size 1/2, is subdivided. With three steps, on the first octant of
  that octant: the walk follows two links and ends without an info; the node, of size
  1/4, is not subdivided.
\<close>

theorem UpdateSpannerVisitor_visit_short_chain_witness:
  "walkParents 0 1 (Some exampleParentInfo) = None \<and>
   UpdateSpannerVisitor_visit exampleSpanners exampleVisitor exampleChildInfo =
     Some (DEFAULT_ORDER,
           MetavoxelInfo (vec3_splat 0) (1 / 2) (Some exampleParentInfo)
             [AttributeValue_of colorAttribute, AttributeValue spannersAttribute (ObjectSet [7])]
             [Some (AttributeValue colorAttribute (Encoded 0))]) \<and>
   snd (blendAttributeValues exampleSpanners 7 exampleChildInfo True) =
     MetavoxelInfo (vec3_splat 0) (1 / 2) (Some exampleParentInfo)
       [AttributeValue_of colorAttribute, AttributeValue spannersAttribute (ObjectSet [7])]
       [Some (AttributeValue colorAttribute (Encoded 7))] \<and>
   UpdateSpannerVisitor_visit exampleSpanners (exampleVisitor\<lparr>visitor_steps := 3\<rparr>) exampleGrandchildInfo =
     Some (STOP_RECURSION,
           MetavoxelInfo (vec3_splat 0) (1 / 4) (Some exampleChildInfo)
             [AttributeValue_of colorAttribute, AttributeValue spannersAttribute (ObjectSet [7])]
             [Some (AttributeValue colorAttribute (Encoded 0))])"
proof -
  have walk1: "walkParents 0 1 (Some exampleParentInfo) = None"
    by (simp add: walkParents_ancestorAt exampleParentInfo_def)
  have walk: "walkParents 0 (visitor_steps exampleVisitor) (parentInfo exampleChildInfo) = None"
    using walk1 by (simp add: exampleVisitor_def exampleChildInfo_def)
  have len: "length (outputValues exampleChildInfo) = length (visitor_outputs exampleVisitor)"
    by (simp add: exampleChildInfo_def exampleVisitor_def)
  have child: "UpdateSpannerVisitor_visit exampleSpanners exampleVisitor exampleChildInfo =
     Some (DEFAULT_ORDER,
           MetavoxelInfo (vec3_splat 0) (1 / 2) (Some exampleParentInfo)
             [AttributeValue_of colorAttribute, AttributeValue spannersAttribute (ObjectSet [7])]
             [Some (AttributeValue colorAttribute (Encoded 0))])"
    using UpdateSpannerVisitor_visit_short_chain[OF exampleChild_intersects walk len]
    by (simp add: exampleChildInfo_def exampleVisitor_def colorAttribute_def)
  have blend: "snd (blendAttributeValues exampleSpanners 7 exampleChildInfo True) =
     MetavoxelInfo (vec3_splat 0) (1 / 2) (Some exampleParentInfo)
       [AttributeValue_of colorAttribute, AttributeValue spannersAttribute (ObjectSet [7])]
       [Some (AttributeValue colorAttribute (Encoded 7))]"
    by (simp add: exampleSpanners_def exampleChildInfo_def setOutputValues_def)
  let ?v = "exampleVisitor\<lparr>visitor_steps := 3\<rparr>"
  have inter3: "Box_intersects (info_getBounds exampleGrandchildInfo) (getBounds exampleSpanners (visitor_spanner ?v))"
    by (simp add: Box_intersects_def info_getBounds_def exampleGrandchildInfo_def exampleSpanners_def
        unitBox_def vec3_splat_def vec3_add_def)
  have walk3: "walkParents 0 (visitor_steps ?v) (parentInfo exampleGrandchildInfo) = None"
    by (simp add: walkParents_ancestorAt exampleGrandchildInfo_def exampleChildInfo_def
        exampleParentInfo_def eval_nat_numeral)
  have len3: "length (outputValues exampleGrandchildInfo) = length (visitor_outputs ?v)"
    by (simp add: exampleGrandchildInfo_def exampleVisitor_def)
  have grandchild: "UpdateSpannerVisitor_visit exampleSpanners ?v exampleGrandchildInfo =
     Some (STOP_RECURSION,
           MetavoxelInfo (vec3_splat 0) (1 / 4) (Some exampleChildInfo)
             [AttributeValue_of colorAttribute, AttributeValue spannersAttribute (ObjectSet [7])]
             [Some (AttributeValue colorAttribute (Encoded 0))])"
    using UpdateSpannerVisitor_visit_short_chain[OF inter3 walk3 len3]
    by (simp add: exampleGrandchildInfo_def exampleVisitor_def colorAttribute_def)
  from walk1 child blend grandchild show ?thesis by simp
qed

subsection \<open>The material edit's colour\<close>

text \<open>
  C7. The colour that HeightfieldMaterialSpannerEdit::apply hands on is the edit's
  average colour with its alpha set to 1 and its other channels unchanged when
  \<open>paint\<close> is set; otherwise the colour (0, 0, 0, 0) when the average colour's alpha is
  below 0.5; otherwise the average colour itself.
\<close>

theorem effectiveColor_cases:
  "effectiveColor edit =
     (if material_paint edit then (material_averageColor edit)\<lparr>alphaF := 1\<rparr>
      else if alphaF (material_averageColor edit) < 1 / 2
      then \<lparr>redF = 0, greenF = 0, blueF = 0, alphaF = 0\<rparr>
      else material_averageColor edit)"
  by (simp add: effectiveColor_def setAlphaF_def QColor_rgba_def Let_def)

text \<open>Alpha 0.4 without \<open>paint\<close> gives the transparent colour, alpha 0.6 keeps the
  colour, and alpha 0.4 with \<open>paint\<close> becomes opaque.\<close>

theorem effectiveColor_cases_witness:
  "effectiveColor (exampleMaterialEdit (4 / 10) False) = \<lparr>redF = 0, greenF = 0, blueF = 0, alphaF = 0\<rparr> \<and>
   effectiveColor (exampleMaterialEdit (6 / 10) False) = exampleColor (6 / 10) \<and>
   effectiveColor (exampleMaterialEdit (4 / 10) True) = \<lparr>redF = 1 / 5, greenF = 2 / 5, blueF = 3 / 5, alphaF = 1\<rparr>"
  using effectiveColor_cases[of "exampleMaterialEdit (4 / 10) False"]
    effectiveColor_cases[of "exampleMaterialEdit (6 / 10) False"]
    effectiveColor_cases[of "exampleMaterialEdit (4 / 10) True"]
  by (simp add: exampleMaterialEdit_def exampleColor_def)

subsection \<open>Removing a spanner whose id is unknown\<close>

text \<open>
  C3, as amended. When the id is absent from the object table, RemoveSpannerEdit::apply
  returns without an error and leaves the data as it was. The revision of lines 367-372
  writes the line "Missing object to remove" with the id first; the revision of lines
  124-129 writes nothing.
\<close>

theorem RemoveSpannerEdit_apply_missing:
  assumes "objects (remove_id edit) = None"
  shows "RemoveSpannerEdit_apply edit objects rt = Some rt \<and>
         RemoveSpannerEdit_apply_rev fuel pf reg sm edit objects rt =
           Some (rt\<lparr>debugOutput := debugOutput rt @ [(''Missing object to remove'', remove_id edit)]\<rparr>)"
  using assms
  by (simp add: RemoveSpannerEdit_apply_def RemoveSpannerEdit_apply_rev_def qDebug_def)

theorem RemoveSpannerEdit_apply_missing_witness:
  "RemoveSpannerEdit_apply exampleRemoveEdit noObjects exampleRuntime = Some exampleRuntime \<and>
   RemoveSpannerEdit_apply_rev 1 examplePlatform exampleRegistry exampleSpanners exampleRemoveEdit noObjects
     exampleRuntime =
     Some \<lparr>runtime_data = exampleData, debugOutput = [(''Missing object to remove'', 7)],
           strongReferences = []\<rparr>"
proof -
  have "noObjects (remove_id exampleRemoveEdit) = None" by (simp add: noObjects_def)
  with RemoveSpannerEdit_apply_missing[of noObjects exampleRemoveEdit exampleRuntime 1
      examplePlatform exampleRegistry exampleSpanners]
  show ?thesis by (simp add: exampleRuntime_def exampleRemoveEdit_def)
qed

text \<open>
  With an empty object table, RemoveSpannerEdit::apply of lines 124-129 returns the state
  it was given: no line is written, where the claim has one written.
\<close>

theorem RemoveSpannerEdit_apply_missing_counterexample:
  "RemoveSpannerEdit_apply exampleRemoveEdit noObjects exampleRuntime \<noteq>
   RemoveSpannerEdit_apply_missing_claimed exampleRemoveEdit exampleRuntime"
proof
  assume "RemoveSpannerEdit_apply exampleRemoveEdit noObjects exampleRuntime =
    RemoveSpannerEdit_apply_missing_claimed exampleRemoveEdit exampleRuntime"
  then have "debugOutput exampleRuntime = debugOutput (qDebug ''Missing object to remove'' 7 exampleRuntime)"
    by (simp add: RemoveSpannerEdit_apply_def RemoveSpannerEdit_apply_missing_claimed_def noObjects_def
        exampleRemoveEdit_def)
  then show False by (simp add: qDebug_def exampleRuntime_def)
qed

subsection \<open>The update visitor's construction\<close>

lemma floatToInt_roundf:
  "floatToInt pf (roundf (Finite x)) =
     (let k = (if x \<ge> 0 then \<lfloor>x + 1 / 2\<rfloor> else \<lceil>x - 1 / 2\<rceil>)
      in if - 2147483648 \<le> k \<and> k \<le> 2147483647 then k else invalidInt pf)"
proof -
  define k where "k = (if x \<ge> 0 then \<lfloor>x + 1 / 2\<rfloor> else \<lceil>x - 1 / 2\<rceil>)"
  have r: "roundf (Finite x) = Finite (of_int k)" by (simp add: k_def)
  have "(- 2147483649 < (of_int k :: real) \<and> (of_int k :: real) < 2147483648) =
        (- 2147483648 \<le> k \<and> k \<le> 2147483647)"
  proof -
    have "(- 2147483649 < (of_int k :: real)) = ((of_int (- 2147483649) :: real) < of_int k)" by simp
    also have "\<dots> = (- 2147483649 < k)" by (simp only: of_int_less_iff)
    finally have a: "(- 2147483649 < (of_int k :: real)) = (- 2147483648 \<le> k)" by auto
    have "((of_int k :: real) < 2147483648) = ((of_int k :: real) < of_int 2147483648)" by simp
    also have "\<dots> = (k < 2147483648)" by (simp only: of_int_less_iff)
    finally have b: "((of_int k :: real) < 2147483648) = (k \<le> 2147483647)" by auto
    from a b show ?thesis by simp
  qed
  then show ?thesis
    unfolding r k_def[symmetric] by (simp add: Let_def)
qed

lemma UpdateSpannerVisitor_new_steps:
  assumes "fsub (fdiv (logf pf (lodThresholdMultiplier (getSpannersAttribute reg))) (logf pf 2)) (Finite 2) = Finite x"
  shows "visitor_steps (updateVisitorFor pf reg sm spanner) =
     (let k = (if x \<ge> 0 then \<lfloor>x + 1 / 2\<rfloor> else \<lceil>x - 1 / 2\<rceil>)
      in if - 2147483648 \<le> k \<and> k \<le> 2147483647 then k else invalidInt pf)"
  by (simp add: updateVisitorFor_def UpdateSpannerVisitor_new_def assms floatToInt_roundf del: roundf.simps floatToInt.simps)

lemma UpdateSpannerVisitor_new_size:
  "visitor_voxelizationSize (updateVisitorFor pf reg sm spanner) =
     fdiv (fmul (Finite (max (Box_getLongestSide (getBounds sm spanner)) (getPlacementGranularity sm spanner)))
             (Finite 2))
          (Finite (lodThresholdMultiplier (getSpannersAttribute reg)))"
  by (simp add: updateVisitorFor_def UpdateSpannerVisitor_new_def)

lemma round32_two_thirds: "round32 (2 / 3) = Finite (11184811 / 16777216)"
proof -
  have q: "float32_quantum (2 / 3) = 1 / 16777216"
    by (rule float32_quantum_at[where i = 125]) simp_all
  show ?thesis
    using round32_at[OF q, of 11184811] by (simp add: roundTiesToEven_def)
qed

lemma round32_logf_6: "round32 (3757592 / 1453635) = Finite (10842119 / 4194304)"
proof -
  have q: "float32_quantum (3757592 / 1453635) = 1 / 4194304"
    by (rule float32_quantum_at[where i = 127]) simp_all
  show ?thesis
    using round32_at[OF q, of 10842119] by (simp add: roundTiesToEven_def)
qed

lemma round32_logf_5_2: "round32 (1921601 / 1453635) = Finite (11089137 / 8388608)"
proof -
  have q: "float32_quantum (1921601 / 1453635) = 1 / 8388608"
    by (rule float32_quantum_at[where i = 126]) simp_all
  show ?thesis
    using round32_at[OF q, of 11089137] by (simp add: roundTiesToEven_def)
qed

lemma round32_steps_values:
  "round32 3 = Finite 3"
  "round32 (5 / 2) = Finite (5 / 2)"
  "round32 (2453511 / 4194304) = Finite (2453511 / 4194304)"
  "round32 (- (5688079 / 8388608)) = Finite (- (5688079 / 8388608))"
  using round32_dyadic[of 3 0] round32_dyadic[of 5 1] round32_dyadic[of 2453511 22]
    round32_dyadic[of "- 5688079" 23]
  by simp_all

lemma Box_getLongestSide_unitBox: "Box_getLongestSide unitBox = 1"
  by (simp add: Box_getLongestSide_def unitBox_def vec3_splat_def)

lemma example_logf_quotients:
  "fsub (fdiv (logf examplePlatform 2) (logf examplePlatform 2)) (Finite 2) = Finite (- 1)"
  "fsub (fdiv (logf examplePlatform (5 / 2)) (logf examplePlatform 2)) (Finite 2) = Finite (- (5688079 / 8388608))"
  "fsub (fdiv (logf examplePlatform 6) (logf examplePlatform 2)) (Finite 2) = Finite (2453511 / 4194304)"
  "fsub (fdiv (logf examplePlatform 8) (logf examplePlatform 2)) (Finite 2) = Finite 1"
  "fsub (fdiv (logf examplePlatform (11863283 / 2097152)) (logf examplePlatform 2)) (Finite 2) = Finite (1 / 2)"
  by (simp_all add: examplePlatform_def fsub_def round32_values round32_steps_values round32_logf_6
      round32_logf_5_2)

lemma claimedSteps_near_root32: "claimedSteps (registryWith (11863283 / 2097152)) = 0"
proof -
  let ?m = "11863283 / 2097152 :: real"
  have lower: "2 \<le> log 2 ?m"
  proof -
    have "(2::real) powr 2 \<le> ?m" by simp
    then show ?thesis by (simp add: le_log_iff)
  qed
  have upper: "log 2 ?m < 5 / 2"
  proof -
    have "(2 powr (5 / 2) :: real) ^ 2 = 2 powr 5"
      by (simp add: powr_powr flip: powr_numeral)
    also have "\<dots> = 32" by simp
    finally have sq: "(2 powr (5 / 2) :: real) ^ 2 = 32" .
    have "?m ^ 2 < 32" by (simp add: power2_eq_square)
    with sq have "?m ^ 2 < (2 powr (5 / 2)) ^ 2" by simp
    then have "?m < 2 powr (5 / 2)"
      by (rule power2_less_imp_less) simp
    then show ?thesis by (rule iffD2[OF log_less_iff, rotated 2]) simp_all
  qed
  from lower upper have "\<lfloor>log 2 ?m - 2 + 1 / 2\<rfloor> = 0" by (simp add: floor_eq_iff)
  with lower show ?thesis
    by (simp add: claimedSteps_def registryWith_def spannersAttribute_def Let_def)
qed

text \<open>
  C5, as amended. The visitor that InsertSpannerEdit::apply of lines 354-360 builds for
  its spanner and guides over the data after the insertion has, with \<open>m\<close> the LOD
  threshold multiplier of the spanners attribute: as voxelization size the float
  \<open>max(longest bounds side, placement granularity) * 2.0f / m\<close>, the product and then
  the quotient rounded to binary32 (each within half a spacing of the exact product and
  quotient when finite); and as step count \<open>roundf\<close> of the float
  \<open>logf(m) / logf(2.0f) - 2.0f\<close>, the quotient and then the difference rounded to
  binary32: when that float is the finite number \<open>x\<close>, the integer nearest to
  \<open>x\<close>, halves away from zero, if it is an \<open>int\<close>; when it is not, or when the
  float is not finite, what the platform's conversion yields. InsertSpannerEdit::apply of
  lines 115-117 only calls \<open>data.insert\<close>.
\<close>

theorem UpdateSpannerVisitor_new_fields:
  "InsertSpannerEdit_apply_rev fuel pf reg sm edit d =
     Option.bind (MetavoxelData_insert sm (insert_attribute edit) (insert_spanner edit) d)
       (guideUpdate fuel sm (updateVisitorFor pf reg sm (insert_spanner edit))) \<and>
   InsertSpannerEdit_apply sm edit d =
     MetavoxelData_insert sm (insert_attribute edit) (insert_spanner edit) d \<and>
   visitor_spanner (updateVisitorFor pf reg sm (insert_spanner edit)) = insert_spanner edit \<and>
   visitor_voxelizationSize (updateVisitorFor pf reg sm (insert_spanner edit)) =
     fdiv (fmul (Finite (max (Box_getLongestSide (getBounds sm (insert_spanner edit)))
                            (getPlacementGranularity sm (insert_spanner edit))))
             (Finite 2))
          (Finite (lodThresholdMultiplier (getSpannersAttribute reg))) \<and>
   (\<forall>p r. fmul (Finite (max (Box_getLongestSide (getBounds sm (insert_spanner edit)))
                              (getPlacementGranularity sm (insert_spanner edit))))
               (Finite 2) = Finite p \<and>
          visitor_voxelizationSize (updateVisitorFor pf reg sm (insert_spanner edit)) = Finite r \<and>
          lodThresholdMultiplier (getSpannersAttribute reg) \<noteq> 0 \<longrightarrow>
      \<bar>p - max (Box_getLongestSide (getBounds sm (insert_spanner edit)))
                (getPlacementGranularity sm (insert_spanner edit)) * 2\<bar>
        \<le> float32_quantum (max (Box_getLongestSide (getBounds sm (insert_spanner edit)))
                               (getPlacementGranularity sm (insert_spanner edit)) * 2) / 2 \<and>
      \<bar>r - p / lodThresholdMultiplier (getSpannersAttribute reg)\<bar>
        \<le> float32_quantum (p / lodThresholdMultiplier (getSpannersAttribute reg)) / 2) \<and>
   (\<forall>x. fsub (fdiv (logf pf (lodThresholdMultiplier (getSpannersAttribute reg))) (logf pf 2))
          (Finite 2) = Finite x \<longrightarrow>
      visitor_steps (updateVisitorFor pf reg sm (insert_spanner edit)) =
        (let k = (if x \<ge> 0 then \<lfloor>x + 1 / 2\<rfloor> else \<lceil>x - 1 / 2\<rceil>)
         in if - 2147483648 \<le> k \<and> k \<le> 2147483647 then k else invalidInt pf)) \<and>
   ((\<forall>x. fsub (fdiv (logf pf (lodThresholdMultiplier (getSpannersAttribute reg))) (logf pf 2))
           (Finite 2) \<noteq> Finite x) \<longrightarrow>
      visitor_steps (updateVisitorFor pf reg sm (insert_spanner edit)) = invalidInt pf)"
proof -
  let ?side = "max (Box_getLongestSide (getBounds sm (insert_spanner edit)))
                   (getPlacementGranularity sm (insert_spanner edit))"
  let ?m = "lodThresholdMultiplier (getSpannersAttribute reg)"
  have older: "InsertSpannerEdit_apply_rev fuel pf reg sm edit d =
     Option.bind (MetavoxelData_insert sm (insert_attribute edit) (insert_spanner edit) d)
       (guideUpdate fuel sm (updateVisitorFor pf reg sm (insert_spanner edit)))"
    by (simp add: InsertSpannerEdit_apply_rev_def split: option.splits)
  have newer: "InsertSpannerEdit_apply sm edit d =
     MetavoxelData_insert sm (insert_attribute edit) (insert_spanner edit) d"
    by (simp add: InsertSpannerEdit_apply_def)
  have spanner: "visitor_spanner (updateVisitorFor pf reg sm (insert_spanner edit)) = insert_spanner edit"
    by (simp add: updateVisitorFor_def UpdateSpannerVisitor_new_def)
  note size = UpdateSpannerVisitor_new_size[of pf reg sm "insert_spanner edit"]
  have near: "\<bar>p - ?side * 2\<bar> \<le> float32_quantum (?side * 2) / 2 \<and>
      \<bar>r - p / ?m\<bar> \<le> float32_quantum (p / ?m) / 2"
    if p: "fmul (Finite ?side) (Finite 2) = Finite p"
      and r: "visitor_voxelizationSize (updateVisitorFor pf reg sm (insert_spanner edit)) = Finite r"
      and m: "?m \<noteq> 0" for p r
  proof -
    from p have "round32 (?side * 2) = Finite p" by simp
    then have a: "\<bar>p - ?side * 2\<bar> \<le> float32_quantum (?side * 2) / 2" by (rule round32_error)
    from r have "fdiv (Finite p) (Finite ?m) = Finite r" unfolding size p .
    with m have "round32 (p / ?m) = Finite r" by simp
    then have "\<bar>r - p / ?m\<bar> \<le> float32_quantum (p / ?m) / 2" by (rule round32_error)
    with a show ?thesis by simp
  qed
  note steps = UpdateSpannerVisitor_new_steps[of pf reg _ sm "insert_spanner edit"]
  have other: "visitor_steps (updateVisitorFor pf reg sm (insert_spanner edit)) = invalidInt pf"
    if "\<forall>x. fsub (fdiv (logf pf ?m) (logf pf 2)) (Finite 2) \<noteq> Finite x"
    using that
    by (cases "fsub (fdiv (logf pf ?m) (logf pf 2)) (Finite 2)")
       (simp_all add: updateVisitorFor_def UpdateSpannerVisitor_new_def)
  show ?thesis
    apply (intro conjI allI impI)
          apply (rule older)
         apply (rule newer)
        apply (rule spanner)
       apply (rule size)
      apply (elim conjE, rule near[THEN conjunct1], assumption+)
      apply (elim conjE, rule near[THEN conjunct2], assumption+)
     apply (rule steps, assumption)
    apply (rule other, assumption)
    done
qed

text \<open>
  With the \<open>logf\<close> of the GNU C library and a spanner of longest side 1: a multiplier
  of 8 gives the voxelization size 1/4 and one step; a multiplier of 6 gives
  \<open>logf(6) / logf(2) - 2\<close> = 2453511/4194304, about 0.585, and one step; a multiplier
  of 2.5 gives -5688079/8388608, about -0.678, and the step count -1; a multiplier of 3
  gives the voxelization size 11184811/16777216, within half a spacing of 2/3; a
  multiplier of 0, whose \<open>logf\<close> is minus infinity, gives an infinite voxelization
  size and the step count that the conversion of minus infinity yields.
\<close>

theorem UpdateSpannerVisitor_new_fields_witness:
  "visitor_voxelizationSize (updateVisitorFor examplePlatform exampleRegistry exampleSpanners 7) = Finite (1 / 4) \<and>
   visitor_steps (updateVisitorFor examplePlatform exampleRegistry exampleSpanners 7) = 1 \<and>
   fsub (fdiv (logf examplePlatform 6) (logf examplePlatform 2)) (Finite 2) = Finite (2453511 / 4194304) \<and>
   visitor_steps (updateVisitorFor examplePlatform (registryWith 6) exampleSpanners 7) = 1 \<and>
   fsub (fdiv (logf examplePlatform (5 / 2)) (logf examplePlatform 2)) (Finite 2) =
     Finite (- (5688079 / 8388608)) \<and>
   visitor_steps (updateVisitorFor examplePlatform (registryWith (5 / 2)) exampleSpanners 7) = - 1 \<and>
   visitor_voxelizationSize (updateVisitorFor examplePlatform (registryWith 3) exampleSpanners 7) =
     Finite (11184811 / 16777216) \<and>
   \<bar>11184811 / 16777216 - 2 / 3\<bar> \<le> float32_quantum (2 / 3) / 2 \<and>
   visitor_voxelizationSize (updateVisitorFor examplePlatform (registryWith 0) exampleSpanners 7) =
     PlusInfinity \<and>
   visitor_steps (updateVisitorFor examplePlatform (registryWith 0) exampleSpanners 7) = - 2147483648"
proof -
  let ?edit = "\<lparr>insert_attribute = spannersAttribute, insert_spanner = 7\<rparr>"
  have m8: "lodThresholdMultiplier (getSpannersAttribute exampleRegistry) = 8"
    by (simp add: exampleRegistry_def spannersAttribute_def)
  have m: "lodThresholdMultiplier (getSpannersAttribute (registryWith x)) = x" for x
    by (simp add: registryWith_def)
  have side: "max (Box_getLongestSide (getBounds exampleSpanners 7)) (getPlacementGranularity exampleSpanners 7) = 1"
    by (simp add: exampleSpanners_def Box_getLongestSide_unitBox)
  have q8: "fsub (fdiv (logf examplePlatform (lodThresholdMultiplier (getSpannersAttribute exampleRegistry)))
                (logf examplePlatform 2)) (Finite 2) = Finite 1"
    by (simp only: m8 example_logf_quotients)
  have q6: "fsub (fdiv (logf examplePlatform (lodThresholdMultiplier (getSpannersAttribute (registryWith 6))))
                (logf examplePlatform 2)) (Finite 2) = Finite (2453511 / 4194304)"
    by (simp only: m example_logf_quotients)
  have q52: "fsub (fdiv (logf examplePlatform (lodThresholdMultiplier (getSpannersAttribute (registryWith (5 / 2)))))
                (logf examplePlatform 2)) (Finite 2) = Finite (- (5688079 / 8388608))"
    by (simp only: m example_logf_quotients)
  note inst8 = UpdateSpannerVisitor_new_fields[of 1 examplePlatform exampleRegistry exampleSpanners ?edit exampleData]
  note inst6 = UpdateSpannerVisitor_new_fields[of 1 examplePlatform "registryWith 6" exampleSpanners ?edit exampleData]
  note inst52 = UpdateSpannerVisitor_new_fields[of 1 examplePlatform "registryWith (5 / 2)" exampleSpanners ?edit exampleData]
  have size8: "visitor_voxelizationSize (updateVisitorFor examplePlatform exampleRegistry exampleSpanners 7) = Finite (1 / 4)"
    using inst8[THEN conjunct2, THEN conjunct2, THEN conjunct2, THEN conjunct1]
    by (simp add: m8 side round32_values)
  have steps8: "visitor_steps (updateVisitorFor examplePlatform exampleRegistry exampleSpanners 7) = 1"
    using inst8[THEN conjunct2, THEN conjunct2, THEN conjunct2, THEN conjunct2, THEN conjunct2,
        THEN conjunct1, rule_format, OF q8]
    by simp
  have steps6: "visitor_steps (updateVisitorFor examplePlatform (registryWith 6) exampleSpanners 7) = 1"
    using inst6[THEN conjunct2, THEN conjunct2, THEN conjunct2, THEN conjunct2, THEN conjunct2,
        THEN conjunct1, rule_format, OF q6]
    by simp
  have steps52: "visitor_steps (updateVisitorFor examplePlatform (registryWith (5 / 2)) exampleSpanners 7) = - 1"
    using inst52[THEN conjunct2, THEN conjunct2, THEN conjunct2, THEN conjunct2, THEN conjunct2,
        THEN conjunct1, rule_format, OF q52]
    by simp
  note inst3 = UpdateSpannerVisitor_new_fields[of 1 examplePlatform "registryWith 3" exampleSpanners ?edit exampleData]
  have size3: "visitor_voxelizationSize (updateVisitorFor examplePlatform (registryWith 3) exampleSpanners 7) =
     Finite (11184811 / 16777216)"
    using inst3[THEN conjunct2, THEN conjunct2, THEN conjunct2, THEN conjunct1]
    by (simp add: m side round32_values round32_two_thirds)
  have product: "fmul (Finite (max (Box_getLongestSide (getBounds exampleSpanners (insert_spanner ?edit)))
                              (getPlacementGranularity exampleSpanners (insert_spanner ?edit))))
               (Finite 2) = Finite 2"
    by (simp add: side round32_values)
  have near3: "\<bar>11184811 / 16777216 - 2 / 3\<bar> \<le> float32_quantum (2 / 3) / 2"
    using inst3[THEN conjunct2, THEN conjunct2, THEN conjunct2, THEN conjunct2, THEN conjunct1,
        rule_format, of 2 "11184811 / 16777216"] product size3
    by (simp add: m)
  note inst0 = UpdateSpannerVisitor_new_fields[of 1 examplePlatform "registryWith 0" exampleSpanners ?edit exampleData]
  have size0: "visitor_voxelizationSize (updateVisitorFor examplePlatform (registryWith 0) exampleSpanners 7) =
     PlusInfinity"
    using inst0[THEN conjunct2, THEN conjunct2, THEN conjunct2, THEN conjunct1]
    by (simp add: m side round32_values)
  have q0: "\<forall>x. fsub (fdiv (logf examplePlatform (lodThresholdMultiplier (getSpannersAttribute (registryWith 0))))
                (logf examplePlatform 2)) (Finite 2) \<noteq> Finite x"
    by (simp add: m examplePlatform_def fsub_def)
  have steps0: "visitor_steps (updateVisitorFor examplePlatform (registryWith 0) exampleSpanners 7) = - 2147483648"
    using inst0[THEN conjunct2, THEN conjunct2, THEN conjunct2, THEN conjunct2, THEN conjunct2,
        THEN conjunct2, THEN mp, OF q0]
    by (simp add: examplePlatform_def)
  from size8 steps8 steps6 steps52 example_logf_quotients(2,3) size3 near3 size0 steps0
  show ?thesis by simp
qed

text \<open>
  With a multiplier of 3 and a spanner of longest side 1 the visitor's voxelization size
  is 11184811/16777216, the binary32 value nearest to 2/3, and not 2/3. With the
  multiplier 11863283/2097152, the binary32 value just below the square root of 32,
  \<open>logf(m)\<close> is 7268175/4194304 and \<open>logf(2.0f)\<close> is 1453635/2097152 in the GNU C
  library: the quotient of the two is exactly 2.5, the visitor's step count is
  \<open>roundf(0.5)\<close> = 1, and \<open>log2(m) - 2\<close>, below 0.5, rounds to 0.
\<close>

theorem UpdateSpannerVisitor_new_claimed_counterexample:
  "visitor_voxelizationSize (updateVisitorFor examplePlatform (registryWith 3) exampleSpanners 7) =
     Finite (11184811 / 16777216) \<and>
   claimedVoxelizationSize (registryWith 3) exampleSpanners 7 = 2 / 3 \<and>
   visitor_voxelizationSize (updateVisitorFor examplePlatform (registryWith 3) exampleSpanners 7) \<noteq>
     Finite (claimedVoxelizationSize (registryWith 3) exampleSpanners 7) \<and>
   visitor_steps (updateVisitorFor examplePlatform (registryWith (11863283 / 2097152)) exampleSpanners 7) = 1 \<and>
   claimedSteps (registryWith (11863283 / 2097152)) = 0"
proof -
  have m: "lodThresholdMultiplier (getSpannersAttribute (registryWith x)) = x" for x
    by (simp add: registryWith_def)
  have side: "max (Box_getLongestSide (getBounds exampleSpanners 7)) (getPlacementGranularity exampleSpanners 7) = 1"
    by (simp add: exampleSpanners_def Box_getLongestSide_unitBox)
  have size: "visitor_voxelizationSize (updateVisitorFor examplePlatform (registryWith 3) exampleSpanners 7) =
     Finite (11184811 / 16777216)"
    by (simp add: UpdateSpannerVisitor_new_size m side round32_values round32_two_thirds)
  have claimed: "claimedVoxelizationSize (registryWith 3) exampleSpanners 7 = 2 / 3"
    by (simp add: claimedVoxelizationSize_def m side)
  have steps: "visitor_steps (updateVisitorFor examplePlatform (registryWith (11863283 / 2097152)) exampleSpanners 7) = 1"
    using UpdateSpannerVisitor_new_steps[of examplePlatform "registryWith (11863283 / 2097152)" "1 / 2"
        exampleSpanners 7] example_logf_quotients(5)
    by (simp add: m)
  from size claimed steps claimedSteps_near_root32 show ?thesis by simp
qed

subsection \<open>The global-set edit\<close>

lemma GlobalSetEditVisitor_visit_eq:
  "outputValues info \<noteq> [] \<Longrightarrow>
   GlobalSetEditVisitor_visit edit info = Some (STOP_RECURSION, withOutput0 (globalSet_value edit) info)"
  by (simp add: GlobalSetEditVisitor_visit_def assignOutput_0)

lemma GlobalSetEdit_apply_eq:
  "GlobalSetEdit_apply (Suc fuel) edit d =
     Some (d\<lparr>roots := (roots d)(getAttribute (globalSet_value edit) \<mapsto> leafNode (globalSet_value edit))\<rparr>)"
  by (simp add: GlobalSetEdit_apply_def MetavoxelData_guide_def GlobalSetEditVisitor_visit_eq
      withOutput0_def setOutputValues_sel acceptOutputs_def)

lemma nodeValueAt_leaf: "nodeValueAt (leafNode v) m s pos = v"
  by (subst nodeValueAt.simps) (simp add: leafNode_def)

text \<open>
  C9. GlobalSetEditVisitor::visit, on every info that has an output slot, writes the
  edit's value to output 0 and returns \<open>STOP_RECURSION\<close>. GlobalSetEdit::apply
  therefore ends at the root, for every traversal depth of at least one node: the
  attribute's tree becomes one leaf of the edit's value, and a point query for the
  attribute returns that value at every position, whatever the tree was before.
\<close>

theorem GlobalSetEdit_sets_everywhere:
  "(outputValues info \<noteq> [] \<longrightarrow>
      GlobalSetEditVisitor_visit edit info =
        Some (STOP_RECURSION, withOutput0 (globalSet_value edit) info)) \<and>
   (\<exists>d'. GlobalSetEdit_apply (Suc fuel) edit d = Some d' \<and>
         roots d' (getAttribute (globalSet_value edit)) = Some (leafNode (globalSet_value edit)) \<and>
         MetavoxelData_valueAt d' (getAttribute (globalSet_value edit)) pos = globalSet_value edit)"
  by (simp add: GlobalSetEditVisitor_visit_eq GlobalSetEdit_apply_eq MetavoxelData_valueAt_def
      nodeValueAt_leaf)

text \<open>
  A colour tree subdivided once reads 4 in its octant 4; after the global set of 9 the
  same position reads 9.
\<close>

theorem GlobalSetEdit_sets_everywhere_witness:
  "MetavoxelData_valueAt exampleSubdividedData colorAttribute
     \<lparr>vec_x = - (1 / 4), vec_y = - (1 / 4), vec_z = 1 / 4\<rparr> = AttributeValue colorAttribute (Encoded 4) \<and>
   (\<exists>d'. GlobalSetEdit_apply (Suc 0) exampleGlobalSetEdit exampleSubdividedData = Some d' \<and>
         MetavoxelData_valueAt d' colorAttribute
           \<lparr>vec_x = - (1 / 4), vec_y = - (1 / 4), vec_z = 1 / 4\<rparr> = AttributeValue colorAttribute (Encoded 9))"
proof -
  have oct: "octantOf (vec3_splat (- (1 / 2))) 1 \<lparr>vec_x = - (1 / 4), vec_y = - (1 / 4), vec_z = 1 / 4\<rparr> = 4"
    by (simp add: octantOf_def vec3_splat_def)
  have before: "MetavoxelData_valueAt exampleSubdividedData colorAttribute
     \<lparr>vec_x = - (1 / 4), vec_y = - (1 / 4), vec_z = 1 / 4\<rparr> = AttributeValue colorAttribute (Encoded 4)"
    by (simp add: MetavoxelData_valueAt_def exampleSubdividedData_def MetavoxelData_getBounds_def)
       (subst nodeValueAt.simps, simp add: oct nodeValueAt_leaf)
  show ?thesis
    using GlobalSetEdit_sets_everywhere[of exampleParentInfo exampleGlobalSetEdit 0 exampleSubdividedData
        "\<lparr>vec_x = - (1 / 4), vec_y = - (1 / 4), vec_z = 1 / 4\<rparr>"] before
    by (auto simp: exampleGlobalSetEdit_def)
qed

subsection \<open>The bounds under edits\<close>

lemma expandTimes_0: "expandTimes 0 d = d"
  by (simp add: expandTimes_def)

lemma expandTimes_Suc: "expandTimes (Suc n) d = expandTimes n (MetavoxelData_expand d)"
  by (simp add: expandTimes_def funpow_swap1)

lemma data_size_expand: "data_size (MetavoxelData_expand d) = data_size d * 2"
  by (simp add: MetavoxelData_expand_def)

lemma data_size_expandTimes: "data_size (expandTimes n d) = data_size d * 2 ^ n"
  by (induction n arbitrary: d) (simp_all add: expandTimes_0 expandTimes_Suc data_size_expand)

lemma expandToFit_least:
  "Box_contains (MetavoxelData_getBounds (expandTimes n d)) region \<Longrightarrow>
   (\<forall>m<n. \<not> Box_contains (MetavoxelData_getBounds (expandTimes m d)) region) \<Longrightarrow>
   expandToFit region d = Some (expandTimes n d)"
proof (induction n arbitrary: d)
  case 0
  then show ?case by (subst expandToFit.simps) (simp add: expandTimes_0)
next
  case (Suc n)
  from Suc.prems(2) have no: "\<not> Box_contains (MetavoxelData_getBounds d) region"
    using expandTimes_0[of d] by (metis zero_less_Suc)
  have "expandToFit region (MetavoxelData_expand d) = Some (expandTimes n (MetavoxelData_expand d))"
  proof (rule Suc.IH)
    show "Box_contains (MetavoxelData_getBounds (expandTimes n (MetavoxelData_expand d))) region"
      using Suc.prems(1) by (simp add: expandTimes_Suc)
    show "\<forall>m<n. \<not> Box_contains (MetavoxelData_getBounds (expandTimes m (MetavoxelData_expand d))) region"
      using Suc.prems(2) by (auto simp: expandTimes_Suc[symmetric])
  qed
  with no show ?case by (subst expandToFit.simps) (simp add: expandTimes_Suc)
qed





lemma guide_frame:
  "MetavoxelData_guide fuel ins outs visit d = Some d' \<Longrightarrow>
   data_size d' = data_size d \<and> spannerCollection d' = spannerCollection d"
  by (auto simp: MetavoxelData_guide_def)
















lemma exampleData_expand_bounds:
  "\<not> Box_contains (MetavoxelData_getBounds (expandTimes 0 exampleData)) unitBox"
  "Box_contains (MetavoxelData_getBounds (expandTimes (Suc 0) exampleData)) unitBox"
  by (simp_all add: Box_contains_def MetavoxelData_getBounds_def data_size_expandTimes
      exampleData_def unitBox_def vec3_splat_def)



lemma exampleData_fit_unitBox: "expandToFit unitBox exampleData = Some (expandTimes (Suc 0) exampleData)"
  by (rule expandToFit_least) (simp_all add: exampleData_expand_bounds)



subsection \<open>Removing a spanner that is present\<close>

lemma getIntersecting_remove:
  "object \<notin> set (MetavoxelData_getIntersecting sm a box (MetavoxelData_remove a object d))"
  by (simp add: MetavoxelData_getIntersecting_def MetavoxelData_remove_def)

lemma revoxelize_frame:
  assumes "revoxelize fuel pf reg sm object rt = Some rt'"
  shows "strongReferences rt' = strongReferences rt \<and> debugOutput rt' = debugOutput rt \<and>
         spannerCollection (runtime_data rt') = spannerCollection (runtime_data rt)"
  using assms
  by (auto simp: revoxelize_def onData_def guideUpdate_def dest!: guide_frame)

lemma RemoveSpannerEdit_apply_rev_present:
  "objects (remove_id edit) = Some object \<Longrightarrow>
   RemoveSpannerEdit_apply_rev fuel pf reg sm edit objects rt =
     map_option (releaseStrongReference object)
       (revoxelize fuel pf reg sm object
          (unlinkSpanner (remove_attribute edit) object (takeStrongReference object rt)))"
  by (simp add: RemoveSpannerEdit_apply_rev_def)

text \<open>
  C6, as amended. When the id is present in the object table, RemoveSpannerEdit::apply
  of lines 367-380 takes a strong reference to the spanner, then unlinks the spanner from
  the attribute's collection, then runs the update visitor built for the removed spanner
  (over its voxelized attributes) through \<open>guide\<close>, and releases the reference on the
  result of that pass: the reference is held, and the spanner so kept valid, in the
  state the pass runs on, and the references are as before once apply has returned.
  RemoveSpannerEdit::apply of lines 124-129 only unlinks the spanner. After either, a
  \<open>getIntersecting\<close> query for the edit's attribute, over any box, does not return the
  removed spanner.
\<close>

theorem RemoveSpannerEdit_apply_present:
  assumes "objects (remove_id edit) = Some object"
  shows
    "RemoveSpannerEdit_apply_rev fuel pf reg sm edit objects rt =
       map_option (releaseStrongReference object)
         (revoxelize fuel pf reg sm object
            (unlinkSpanner (remove_attribute edit) object (takeStrongReference object rt))) \<and>
     revoxelize fuel pf reg sm object st =
       onData (guideUpdate fuel sm (updateVisitorFor pf reg sm object)) st \<and>
     object \<in> set (strongReferences (takeStrongReference object rt)) \<and>
     object \<in> set (strongReferences
        (unlinkSpanner (remove_attribute edit) object (takeStrongReference object rt))) \<and>
     isValid (unlinkSpanner (remove_attribute edit) object (takeStrongReference object rt)) object \<and>
     object \<notin> set (spannerCollection (runtime_data
        (unlinkSpanner (remove_attribute edit) object (takeStrongReference object rt))) (remove_attribute edit)) \<and>
     (RemoveSpannerEdit_apply_rev fuel pf reg sm edit objects rt = Some rt' \<longrightarrow>
        strongReferences rt' = strongReferences rt \<and>
        object \<notin> set (MetavoxelData_getIntersecting sm (remove_attribute edit) box (runtime_data rt'))) \<and>
     RemoveSpannerEdit_apply edit objects rt = Some (unlinkSpanner (remove_attribute edit) object rt) \<and>
     object \<notin> set (MetavoxelData_getIntersecting sm (remove_attribute edit) box
        (runtime_data (unlinkSpanner (remove_attribute edit) object rt)))"
proof -
  let ?rt2 = "unlinkSpanner (remove_attribute edit) object (takeStrongReference object rt)"
  have seq: "RemoveSpannerEdit_apply_rev fuel pf reg sm edit objects rt =
       map_option (releaseStrongReference object) (revoxelize fuel pf reg sm object ?rt2)"
    using assms by (rule RemoveSpannerEdit_apply_rev_present)
  have pass: "revoxelize fuel pf reg sm object st =
       onData (guideUpdate fuel sm (updateVisitorFor pf reg sm object)) st"
    by (simp add: revoxelize_def)
  have held1: "object \<in> set (strongReferences (takeStrongReference object rt))"
    by (simp add: takeStrongReference_def)
  have held2: "object \<in> set (strongReferences ?rt2)"
    by (simp add: takeStrongReference_def unlinkSpanner_def)
  have valid: "isValid ?rt2 object"
    using held2 by (simp add: isValid_def)
  have unlinked: "object \<notin> set (spannerCollection (runtime_data ?rt2) (remove_attribute edit))"
    by (simp add: unlinkSpanner_def MetavoxelData_remove_def)
  have after: "strongReferences rt' = strongReferences rt \<and>
        object \<notin> set (MetavoxelData_getIntersecting sm (remove_attribute edit) box (runtime_data rt'))"
    if "RemoveSpannerEdit_apply_rev fuel pf reg sm edit objects rt = Some rt'"
  proof -
    from that seq obtain rt3 where p: "revoxelize fuel pf reg sm object ?rt2 = Some rt3"
      and r: "rt' = releaseStrongReference object rt3" by auto
    from revoxelize_frame[OF p] have "strongReferences rt3 = object # strongReferences rt"
      and "spannerCollection (runtime_data rt3) = spannerCollection (runtime_data ?rt2)"
      by (simp_all add: unlinkSpanner_def takeStrongReference_def)
    with r unlinked show ?thesis
      by (simp add: releaseStrongReference_def MetavoxelData_getIntersecting_def)
  qed
  have direct: "RemoveSpannerEdit_apply edit objects rt = Some (unlinkSpanner (remove_attribute edit) object rt)"
    using assms by (simp add: RemoveSpannerEdit_apply_def unlinkSpanner_def)
  have gone: "object \<notin> set (MetavoxelData_getIntersecting sm (remove_attribute edit) box
        (runtime_data (unlinkSpanner (remove_attribute edit) object rt)))"
    by (simp add: unlinkSpanner_def getIntersecting_remove)
  from seq pass held1 held2 valid unlinked after direct gone show ?thesis by blast
qed

lemma coarse_visitor:
  "updateVisitorFor examplePlatform coarseRegistry exampleSpanners 7 =
     \<lparr>visitor_inputs = [colorAttribute, spannersAttribute\<lparr>lodThresholdMultiplier := 2\<rparr>],
      visitor_outputs = [colorAttribute], visitor_spanner = 7,
      visitor_voxelizationSize = Finite 1, visitor_steps = - 1\<rparr>"
proof -
  have c: "\<lceil>- 1 :: real\<rceil> = - 1" by (rule ceiling_unique) simp_all
  show ?thesis
    using example_logf_quotients(1)
    by (simp add: updateVisitorFor_def UpdateSpannerVisitor_new_def coarseRegistry_def
        spannersAttribute_def exampleSpanners_def Box_getLongestSide_unitBox round32_values c)
qed

lemma coarse_pass:
  assumes "data_size (runtime_data rt) = 1"
  shows "revoxelize (Suc 0) examplePlatform coarseRegistry exampleSpanners 7 rt =
     Some (rt\<lparr>runtime_data := (runtime_data rt)\<lparr>roots :=
        (roots (runtime_data rt))(colorAttribute \<mapsto> leafNode (AttributeValue_of colorAttribute))\<rparr>\<rparr>)"
proof -
  let ?v = "\<lparr>visitor_inputs = [colorAttribute, spannersAttribute\<lparr>lodThresholdMultiplier := 2\<rparr>],
           visitor_outputs = [colorAttribute], visitor_spanner = 7,
           visitor_voxelizationSize = Finite 1, visitor_steps = - 1\<rparr>"
  have visit: "UpdateSpannerVisitor_visit exampleSpanners ?v (MetavoxelInfo (vec3_splat (- (1 / 2))) 1 None ins [None]) =
      Some (STOP_RECURSION, MetavoxelInfo (vec3_splat (- (1 / 2))) 1 None ins [Some (AttributeValue_of colorAttribute)])"
    for ins
    using UpdateSpannerVisitor_visit_eq[of "MetavoxelInfo (vec3_splat (- (1 / 2))) 1 None ins [None]" ?v exampleSpanners]
    by (simp add: Box_intersects_def info_getBounds_def exampleSpanners_def unitBox_def vec3_splat_def
        vec3_add_def updateOrder_def defaultOutputs_def setOutputValues_def)
  show ?thesis
    using assms
    by (simp add: revoxelize_def coarse_visitor onData_def guideUpdate_def MetavoxelData_guide_def
        MetavoxelData_getBounds_def visit acceptOutputs_def)
qed

text \<open>
  Spanner 7, in the collection and in the object table: the query over the unit cube
  returns it before the edit and nothing after it.
\<close>

theorem RemoveSpannerEdit_apply_present_witness:
  "\<exists>rt'. RemoveSpannerEdit_apply_rev (Suc 0) examplePlatform coarseRegistry exampleSpanners exampleRemoveEdit exampleObjects
           exampleRuntime = Some rt' \<and>
         strongReferences rt' = [] \<and>
         MetavoxelData_getIntersecting exampleSpanners spannersAttribute unitBox (runtime_data exampleRuntime) = [7] \<and>
         MetavoxelData_getIntersecting exampleSpanners spannersAttribute unitBox (runtime_data rt') = []"
proof -
  let ?rt2 = "unlinkSpanner (remove_attribute exampleRemoveEdit) 7 (takeStrongReference 7 exampleRuntime)"
  have present: "exampleObjects (remove_id exampleRemoveEdit) = Some 7"
    by (simp add: exampleObjects_def exampleRemoveEdit_def)
  note inst = RemoveSpannerEdit_apply_present[where objects = exampleObjects
      and edit = exampleRemoveEdit and object = 7 and fuel = "Suc 0" and pf = examplePlatform and reg = coarseRegistry
      and sm = exampleSpanners and rt = exampleRuntime and st = exampleRuntime and box = unitBox,
      OF present]
  have size: "data_size (runtime_data ?rt2) = 1"
    by (simp add: unlinkSpanner_def takeStrongReference_def MetavoxelData_remove_def exampleRuntime_def
        exampleData_def)
  from inst have "RemoveSpannerEdit_apply_rev (Suc 0) examplePlatform coarseRegistry exampleSpanners exampleRemoveEdit
      exampleObjects exampleRuntime =
        map_option (releaseStrongReference 7) (revoxelize (Suc 0) examplePlatform coarseRegistry exampleSpanners 7 ?rt2)"
    by blast
  then obtain rt' where run: "RemoveSpannerEdit_apply_rev (Suc 0) examplePlatform coarseRegistry exampleSpanners
      exampleRemoveEdit exampleObjects exampleRuntime = Some rt'"
    by (simp only: coarse_pass[OF size] option.map)
  from inst[where rt' = rt'] run have refs: "strongReferences rt' = strongReferences exampleRuntime"
    and gone: "7 \<notin> set (MetavoxelData_getIntersecting exampleSpanners (remove_attribute exampleRemoveEdit)
        unitBox (runtime_data rt'))" by blast+
  have sub: "set (MetavoxelData_getIntersecting exampleSpanners spannersAttribute unitBox (runtime_data rt'))
      \<subseteq> {7}"
    using run
    by (simp add: RemoveSpannerEdit_apply_rev_def present coarse_pass[OF size])
       (auto simp: releaseStrongReference_def unlinkSpanner_def takeStrongReference_def
          MetavoxelData_remove_def exampleRuntime_def exampleData_def exampleRemoveEdit_def
          MetavoxelData_getIntersecting_def)
  with gone have after: "MetavoxelData_getIntersecting exampleSpanners spannersAttribute unitBox
      (runtime_data rt') = []"
    by (cases "MetavoxelData_getIntersecting exampleSpanners spannersAttribute unitBox (runtime_data rt')")
       (auto simp: exampleRemoveEdit_def)
  have before: "MetavoxelData_getIntersecting exampleSpanners spannersAttribute unitBox
      (runtime_data exampleRuntime) = [7]"
    by (simp add: MetavoxelData_getIntersecting_def exampleRuntime_def exampleData_def
        exampleSpanners_def Box_intersects_def unitBox_def vec3_splat_def)
  from run refs after before show ?thesis
    by (auto simp: exampleRuntime_def)
qed

text \<open>
  On data whose colour tree is a leaf of value 5, RemoveSpannerEdit::apply of lines
  124-129 leaves that tree alone, where the claimed sequence runs the update visitor's
  pass, which resets the root to the colour's default.
\<close>

theorem RemoveSpannerEdit_apply_present_counterexample:
  "RemoveSpannerEdit_apply exampleRemoveEdit exampleObjects exampleRuntime \<noteq>
   RemoveSpannerEdit_apply_present_claimed (Suc 0) examplePlatform coarseRegistry exampleSpanners exampleRemoveEdit 7
     exampleRuntime"
proof
  assume eq: "RemoveSpannerEdit_apply exampleRemoveEdit exampleObjects exampleRuntime =
   RemoveSpannerEdit_apply_present_claimed (Suc 0) examplePlatform coarseRegistry exampleSpanners exampleRemoveEdit 7
     exampleRuntime"
  have size: "data_size (runtime_data (unlinkSpanner (remove_attribute exampleRemoveEdit) 7
      (takeStrongReference 7 exampleRuntime))) = 1"
    by (simp add: unlinkSpanner_def takeStrongReference_def MetavoxelData_remove_def exampleRuntime_def
        exampleData_def)
  have "map_option (\<lambda>rt. roots (runtime_data rt) colorAttribute)
          (RemoveSpannerEdit_apply exampleRemoveEdit exampleObjects exampleRuntime) =
        Some (Some (leafNode (AttributeValue colorAttribute (Encoded 5))))"
    by (simp add: RemoveSpannerEdit_apply_def exampleObjects_def exampleRemoveEdit_def
        MetavoxelData_remove_def exampleRuntime_def exampleData_def)
  moreover have "map_option (\<lambda>rt. roots (runtime_data rt) colorAttribute)
          (RemoveSpannerEdit_apply_present_claimed (Suc 0) examplePlatform coarseRegistry exampleSpanners
             exampleRemoveEdit 7 exampleRuntime) =
        Some (Some (leafNode (AttributeValue colorAttribute (Encoded 0))))"
    by (simp add: RemoveSpannerEdit_apply_present_claimed_def coarse_pass[OF size]
        releaseStrongReference_def AttributeValue_of_def colorAttribute_def)
  ultimately show False
    using eq by (simp add: leafNode_def)
qed

subsection \<open>Painting heightfield height\<close>

lemma replace_collection:
  "spannerCollection (MetavoxelData_replace a old new d) a =
     remdups (map (\<lambda>object. if object = old then new else object) (spannerCollection d a))"
  by (simp add: MetavoxelData_replace_def)

lemma replace_distinct_fresh:
  assumes "distinct xs" and "new \<notin> set xs"
  shows "remdups (map (\<lambda>object. if object = old then new else object) xs) =
         map (\<lambda>object. if object = old then new else object) xs"
proof -
  have "inj_on (\<lambda>object. if object = old then new else object) (set xs)"
    using assms(2) by (auto simp: inj_on_def)
  with assms(1) have "distinct (map (\<lambda>object. if object = old then new else object) xs)"
    by (simp add: distinct_map)
  then show ?thesis by (rule distinct_remdups_id)
qed

lemma paintStep_collection:
  "spannerCollection (paintStep reg sm edit spanner d) (getSpannersAttribute reg) =
     (if paintedInstance sm edit spanner \<noteq> spanner
      then remdups (map (\<lambda>object. if object = spanner then paintedInstance sm edit spanner else object)
                      (spannerCollection d (getSpannersAttribute reg)))
      else spannerCollection d (getSpannersAttribute reg))"
  unfolding paintedInstance_def by (simp add: paintStep_def Let_def replace_collection)

lemma fold_paintStep_map:
  assumes "distinct xs" and "distinct ys" and "set ys \<subseteq> set xs"
    and "\<forall>s\<in>set ys. paintedInstance sm edit s = s \<or> paintedInstance sm edit s \<notin> set xs"
    and "inj_on (paintedInstance sm edit) (set ys)"
    and "spannerCollection d (getSpannersAttribute reg) = xs"
  shows "spannerCollection (fold (paintStep reg sm edit) ys d) (getSpannersAttribute reg) =
           map (\<lambda>object. if object \<in> set ys then paintedInstance sm edit object else object) xs"
  using assms
proof (induction ys arbitrary: xs d)
  case Nil
  then show ?case by simp
next
  case (Cons s ys)
  let ?f = "paintedInstance sm edit"
  let ?r = "\<lambda>object. if object = s then ?f s else object"
  let ?d = "paintStep reg sm edit s d"
  have fresh: "?f s = s \<or> ?f s \<notin> set xs" using Cons.prems(4) by simp
  have step: "spannerCollection ?d (getSpannersAttribute reg) = map ?r xs"
  proof (cases "?f s = s")
    case True
    then have "map ?r xs = xs" by (simp add: map_idI)
    with True Cons.prems(6) show ?thesis by (simp add: paintStep_collection)
  next
    case False
    with fresh have "?f s \<notin> set xs" by simp
    from replace_distinct_fresh[OF Cons.prems(1) this, of s] False Cons.prems(6)
    show ?thesis by (simp add: paintStep_collection)
  qed
  have inj_r: "inj_on ?r (set xs)"
    using fresh by (auto simp: inj_on_def)
  have d': "distinct (map ?r xs)"
    using Cons.prems(1) inj_r by (simp add: distinct_map)
  have s_notin: "s \<notin> set ys" using Cons.prems(2) by simp
  have sub': "set ys \<subseteq> set (map ?r xs)"
  proof
    fix t assume t: "t \<in> set ys"
    with s_notin have "t \<noteq> s" by auto
    moreover from t Cons.prems(3) have "t \<in> set xs" by auto
    ultimately show "t \<in> set (map ?r xs)" by (auto simp: image_iff intro!: bexI[of _ t])
  qed
  have fresh': "\<forall>t\<in>set ys. ?f t = t \<or> ?f t \<notin> set (map ?r xs)"
  proof
    fix t assume t: "t \<in> set ys"
    with s_notin have ts: "t \<noteq> s" by auto
    from t Cons.prems(4) have ft: "?f t = t \<or> ?f t \<notin> set xs" by simp
    from t ts Cons.prems(5) have ne: "?f t \<noteq> ?f s" by (auto simp: inj_on_def)
    show "?f t = t \<or> ?f t \<notin> set (map ?r xs)"
      using ft ne by (auto split: if_splits)
  qed
  have inj': "inj_on ?f (set ys)" using Cons.prems(5) by (auto simp: inj_on_def)
  have IH: "spannerCollection (fold (paintStep reg sm edit) ys ?d) (getSpannersAttribute reg) =
      map (\<lambda>object. if object \<in> set ys then ?f object else object) (map ?r xs)"
    using Cons.prems(2) by (intro Cons.IH[OF d' _ sub' fresh' inj' step]) simp
  have pt: "(if ?r x \<in> set ys then ?f (?r x) else ?r x) = (if x \<in> set (s # ys) then ?f x else x)"
    if x: "x \<in> set xs" for x
  proof (cases "x = s")
    case True
    have "?f s \<notin> set ys"
    proof (cases "?f s = s")
      case True then show ?thesis using s_notin by simp
    next
      case False
      with fresh have "?f s \<notin> set xs" by simp
      with Cons.prems(3) show ?thesis by auto
    qed
    with True show ?thesis by simp
  next
    case False
    then show ?thesis by simp
  qed
  have "map (\<lambda>object. if object \<in> set ys then ?f object else object) (map ?r xs) =
        map (\<lambda>object. if object \<in> set (s # ys) then ?f object else object) xs"
    unfolding map_map by (rule map_cong[OF refl]) (use pt in simp)
  with IH show ?case by simp
qed

lemma paintStep_frame:
  "data_size (paintStep reg sm edit spanner d) = data_size d"
  "roots (paintStep reg sm edit spanner d) = roots d"
  "a \<noteq> getSpannersAttribute reg \<Longrightarrow>
     spannerCollection (paintStep reg sm edit spanner d) a = spannerCollection d a"
  by (simp_all add: paintStep_def MetavoxelData_replace_def Let_def)

lemma fold_paintStep_frame:
  "data_size (fold (paintStep reg sm edit) objects d) = data_size d \<and>
   roots (fold (paintStep reg sm edit) objects d) = roots d \<and>
   (a \<noteq> getSpannersAttribute reg \<longrightarrow>
      spannerCollection (fold (paintStep reg sm edit) objects d) a = spannerCollection d a)"
  by (induction objects arbitrary: d) (simp_all add: paintStep_frame)

lemma paintStep_cases:
  "paintStep reg sm edit spanner d =
     (if paintedInstance sm edit spanner = spanner then d
      else MetavoxelData_replace (getSpannersAttribute reg) spanner (paintedInstance sm edit spanner) d)"
  by (simp add: paintStep_def paintedInstance_def Let_def)

lemma round32_not_NaN: "round32 x \<noteq> NaN"
  by (simp add: round32_def Let_def)

lemma corner_not_NaN:
  "fsub (Finite c) (fmul (Finite r) (Finite k)) \<noteq> NaN"
  "fadd (Finite c) (fmul (Finite r) (Finite k)) \<noteq> NaN"
  by (cases "round32 (r * k)"; simp add: fsub_def round32_not_NaN)+

lemma paintQueryBox_eq:
  "paintQueryBox edit =
     \<lparr>minimum =
        \<lparr>vec_x = coordinate (fsub (Finite (vec_x (paint_position edit)))
                               (fmul (Finite (paint_radius edit)) (Finite (9227469 / 8388608)))),
         vec_y = coordinate (fsub (Finite (vec_y (paint_position edit)))
                               (fmul (Finite (paint_radius edit)) (Finite (9227469 / 8388608)))),
         vec_z = coordinate (fsub (Finite (vec_z (paint_position edit)))
                               (fmul (Finite (paint_radius edit)) (Finite (9227469 / 8388608))))\<rparr>,
      maximum =
        \<lparr>vec_x = coordinate (fadd (Finite (vec_x (paint_position edit)))
                               (fmul (Finite (paint_radius edit)) (Finite (9227469 / 8388608)))),
         vec_y = coordinate (fadd (Finite (vec_y (paint_position edit)))
                               (fmul (Finite (paint_radius edit)) (Finite (9227469 / 8388608)))),
         vec_z = coordinate (fadd (Finite (vec_z (paint_position edit)))
                               (fmul (Finite (paint_radius edit)) (Finite (9227469 / 8388608))))\<rparr>\<rparr>"
  by (simp add: paintQueryBox_def RADIUS_EXTENSION_def corner_def vec3f_scale_def vec3f_sub_def
      vec3f_add_def float3_def vec3_splat_def Let_def del: fmul.simps fadd.simps)

lemma round32_paint_values:
  "round32 (9227469 / 8388608) = Finite (9227469 / 8388608)"
  "round32 (- (5033165 / 8388608)) = Finite (- (5033165 / 8388608))"
  "round32 (13421773 / 8388608) = Finite (13421773 / 8388608)"
  "round32 (9227469 / 4194304) = Finite (9227469 / 4194304)"
  using round32_dyadic[of 9227469 23] round32_dyadic[of "- 5033165" 23] round32_dyadic[of 13421773 23]
    round32_dyadic[of 9227469 22]
  by simp_all

lemma examplePaintEdit_box:
  "paintQueryBox examplePaintEdit =
     \<lparr>minimum = vec3_splat (- (5033165 / 8388608)), maximum = vec3_splat (13421773 / 8388608)\<rparr>"
  by (simp add: paintQueryBox_eq examplePaintEdit_def vec3_splat_def fsub_def round32_paint_values)

lemma edgePaintEdit_box:
  "paintQueryBox edgePaintEdit =
     \<lparr>minimum = \<lparr>vec_x = 0, vec_y = - (5033165 / 8388608), vec_z = - (5033165 / 8388608)\<rparr>,
      maximum = \<lparr>vec_x = 9227469 / 4194304, vec_y = 13421773 / 8388608, vec_z = 13421773 / 8388608\<rparr>\<rparr>"
  by (simp add: paintQueryBox_eq edgePaintEdit_def fsub_def round32_paint_values round32_values)

lemma edgePaintEdit_claimed_box:
  "claimedPaintQueryBox edgePaintEdit =
     \<lparr>minimum = \<lparr>vec_x = 1 / 41943040, vec_y = - (3 / 5), vec_z = - (3 / 5)\<rparr>,
      maximum = \<lparr>vec_x = 92274689 / 41943040, vec_y = 8 / 5, vec_z = 8 / 5\<rparr>\<rparr>"
  by (simp add: claimedPaintQueryBox_def edgePaintEdit_def vec3_sub_def vec3_add_def vec3_scale_def
      vec3_splat_def)


text \<open>
  C8, as amended. PaintHeightfieldHeightEdit::apply queries the spanners of the spanners
  attribute whose bounds intersect the box from \<open>position - radius * 1.1f\<close> to
  \<open>position + radius * 1.1f\<close> as binary32 arithmetic gives it: \<open>1.1f\<close> is
  9227469/8388608, and the product, the differences and the sums are rounded (none of
  them is NaN). It goes through the query's results in order: for each it calls
  \<open>paintHeight(position, radius, height)\<close>, replaces the spanner by the returned
  instance when that is a different one, and leaves the data as it is when it is the
  same one. When the collection holds no spanner twice and the returned instances that
  differ are new to the collection and differ from one another, the collection
  afterwards is the one before with exactly the intersecting spanners replaced by their
  returned instances; nothing else of the data changes.
\<close>

theorem PaintHeightfieldHeightEdit_apply_replaces:
  "PaintHeightfieldHeightEdit_apply reg sm edit d =
     Some (fold (paintStep reg sm edit)
             (MetavoxelData_getIntersecting sm (getSpannersAttribute reg) (paintQueryBox edit) d) d) \<and>
   MetavoxelData_getIntersecting sm (getSpannersAttribute reg) (paintQueryBox edit) d =
     filter (\<lambda>spanner. Box_intersects (getBounds sm spanner) (paintQueryBox edit))
       (spannerCollection d (getSpannersAttribute reg)) \<and>
   paintQueryBox edit =
     \<lparr>minimum =
        \<lparr>vec_x = coordinate (fsub (Finite (vec_x (paint_position edit)))
                               (fmul (Finite (paint_radius edit)) (Finite (9227469 / 8388608)))),
         vec_y = coordinate (fsub (Finite (vec_y (paint_position edit)))
                               (fmul (Finite (paint_radius edit)) (Finite (9227469 / 8388608)))),
         vec_z = coordinate (fsub (Finite (vec_z (paint_position edit)))
                               (fmul (Finite (paint_radius edit)) (Finite (9227469 / 8388608))))\<rparr>,
      maximum =
        \<lparr>vec_x = coordinate (fadd (Finite (vec_x (paint_position edit)))
                               (fmul (Finite (paint_radius edit)) (Finite (9227469 / 8388608)))),
         vec_y = coordinate (fadd (Finite (vec_y (paint_position edit)))
                               (fmul (Finite (paint_radius edit)) (Finite (9227469 / 8388608)))),
         vec_z = coordinate (fadd (Finite (vec_z (paint_position edit)))
                               (fmul (Finite (paint_radius edit)) (Finite (9227469 / 8388608))))\<rparr>\<rparr> \<and>
   fsub (Finite c) (fmul (Finite (paint_radius edit)) (Finite (9227469 / 8388608))) \<noteq> NaN \<and>
   fadd (Finite c) (fmul (Finite (paint_radius edit)) (Finite (9227469 / 8388608))) \<noteq> NaN \<and>
   paintStep reg sm edit spanner d1 =
     (if paintedInstance sm edit spanner = spanner then d1
      else MetavoxelData_replace (getSpannersAttribute reg) spanner (paintedInstance sm edit spanner) d1) \<and>
   (distinct (spannerCollection d (getSpannersAttribute reg)) \<and>
    (\<forall>s\<in>set (spannerCollection d (getSpannersAttribute reg)).
        Box_intersects (getBounds sm s) (paintQueryBox edit) \<longrightarrow>
        paintedInstance sm edit s = s \<or>
        paintedInstance sm edit s \<notin> set (spannerCollection d (getSpannersAttribute reg))) \<and>
    inj_on (paintedInstance sm edit)
      {s \<in> set (spannerCollection d (getSpannersAttribute reg)).
         Box_intersects (getBounds sm s) (paintQueryBox edit)} \<longrightarrow>
    (\<exists>d'. PaintHeightfieldHeightEdit_apply reg sm edit d = Some d' \<and>
          spannerCollection d' (getSpannersAttribute reg) =
            map (\<lambda>s. if Box_intersects (getBounds sm s) (paintQueryBox edit)
                      then paintedInstance sm edit s else s)
              (spannerCollection d (getSpannersAttribute reg)) \<and>
          (\<forall>a. a \<noteq> getSpannersAttribute reg \<longrightarrow> spannerCollection d' a = spannerCollection d a) \<and>
          roots d' = roots d \<and> data_size d' = data_size d))"
proof -
  let ?A = "getSpannersAttribute reg"
  let ?xs = "spannerCollection d ?A"
  let ?P = "\<lambda>spanner. Box_intersects (getBounds sm spanner) (paintQueryBox edit)"
  let ?ys = "filter ?P ?xs"
  have app: "PaintHeightfieldHeightEdit_apply reg sm edit d =
     Some (fold (paintStep reg sm edit)
             (MetavoxelData_getIntersecting sm ?A (paintQueryBox edit) d) d)"
    by (simp add: PaintHeightfieldHeightEdit_apply_def Let_def)
  have query: "MetavoxelData_getIntersecting sm ?A (paintQueryBox edit) d = ?ys"
    by (simp add: MetavoxelData_getIntersecting_def)
  have strong: "\<exists>d'. PaintHeightfieldHeightEdit_apply reg sm edit d = Some d' \<and>
          spannerCollection d' ?A = map (\<lambda>s. if ?P s then paintedInstance sm edit s else s) ?xs \<and>
          (\<forall>a. a \<noteq> ?A \<longrightarrow> spannerCollection d' a = spannerCollection d a) \<and>
          roots d' = roots d \<and> data_size d' = data_size d"
    if dist: "distinct ?xs"
      and fresh: "\<forall>s\<in>set ?xs. ?P s \<longrightarrow> paintedInstance sm edit s = s \<or> paintedInstance sm edit s \<notin> set ?xs"
      and inj: "inj_on (paintedInstance sm edit) {s \<in> set ?xs. ?P s}"
  proof -
    have "spannerCollection (fold (paintStep reg sm edit) ?ys d) ?A =
        map (\<lambda>object. if object \<in> set ?ys then paintedInstance sm edit object else object) ?xs"
    proof (rule fold_paintStep_map[OF dist])
      show "distinct ?ys" using dist by simp
      show "set ?ys \<subseteq> set ?xs" by auto
      show "\<forall>s\<in>set ?ys. paintedInstance sm edit s = s \<or> paintedInstance sm edit s \<notin> set ?xs"
        using fresh by simp
      show "inj_on (paintedInstance sm edit) (set ?ys)"
        using inj by (simp only: set_filter)
      show "spannerCollection d ?A = ?xs" by simp
    qed
    also have "\<dots> = map (\<lambda>s. if ?P s then paintedInstance sm edit s else s) ?xs"
      by (rule map_cong[OF refl]) simp
    finally show ?thesis
      using fold_paintStep_frame[of reg sm edit ?ys d] by (simp add: app query)
  qed
  note step = paintStep_cases[of reg sm edit spanner d1]
  note qbox = paintQueryBox_eq[of edit]
  show ?thesis
    apply (intro conjI impI)
          apply (rule app)
         apply (rule query)
        apply (rule qbox)
       apply (rule corner_not_NaN(1))
      apply (rule corner_not_NaN(2))
     apply (rule step)
    apply (elim conjE)
    apply (rule strong)
      apply assumption+
    done
qed

text \<open>
  For the position (0.5, 0.5, 0.5) and the radius 1 the box reaches from
  -5033165/8388608 to 13421773/8388608 in every coordinate. Spanners 7 and 3 both
  intersect it; painting 7 returns the new instance 8, painting 3 returns 3. For the
  largest finite radius the product overflows and the box is unbounded.
\<close>

theorem PaintHeightfieldHeightEdit_apply_replaces_witness:
  "paintQueryBox examplePaintEdit =
     \<lparr>minimum = vec3_splat (- (5033165 / 8388608)), maximum = vec3_splat (13421773 / 8388608)\<rparr> \<and>
   (\<exists>d'. PaintHeightfieldHeightEdit_apply exampleRegistry exampleSpanners examplePaintEdit examplePaintData = Some d' \<and>
        spannerCollection examplePaintData spannersAttribute = [7, 3] \<and>
        spannerCollection d' spannersAttribute = [8, 3]) \<and>
   paintQueryBox hugePaintEdit =
     \<lparr>minimum = vec3_splat (- (2 ^ 128)), maximum = vec3_splat (2 ^ 128)\<rparr>"
proof -
  have box: "Box_intersects (getBounds exampleSpanners s) (paintQueryBox examplePaintEdit)" for s
    by (simp add: Box_intersects_def exampleSpanners_def unitBox_def examplePaintEdit_box vec3_splat_def)
  have coll: "spannerCollection examplePaintData (getSpannersAttribute exampleRegistry) = [7, 3]"
    by (simp add: examplePaintData_def exampleRegistry_def)
  have f: "paintedInstance exampleSpanners examplePaintEdit 7 = 8"
       "paintedInstance exampleSpanners examplePaintEdit 3 = 3"
    by (simp_all add: paintedInstance_def exampleSpanners_def)
  have hyp: "distinct (spannerCollection examplePaintData (getSpannersAttribute exampleRegistry)) \<and>
    (\<forall>s\<in>set (spannerCollection examplePaintData (getSpannersAttribute exampleRegistry)).
        Box_intersects (getBounds exampleSpanners s) (paintQueryBox examplePaintEdit) \<longrightarrow>
        paintedInstance exampleSpanners examplePaintEdit s = s \<or>
        paintedInstance exampleSpanners examplePaintEdit s \<notin>
          set (spannerCollection examplePaintData (getSpannersAttribute exampleRegistry))) \<and>
    inj_on (paintedInstance exampleSpanners examplePaintEdit)
      {s \<in> set (spannerCollection examplePaintData (getSpannersAttribute exampleRegistry)).
         Box_intersects (getBounds exampleSpanners s) (paintQueryBox examplePaintEdit)}"
    unfolding coll by (simp add: f box inj_on_def)
  note inst = PaintHeightfieldHeightEdit_apply_replaces[of exampleRegistry exampleSpanners examplePaintEdit
      examplePaintData "1 / 2" 7 examplePaintData]
  from inst have "paintQueryBox examplePaintEdit =
     \<lparr>minimum =
        \<lparr>vec_x = coordinate (fsub (Finite (vec_x (paint_position examplePaintEdit)))
                               (fmul (Finite (paint_radius examplePaintEdit)) (Finite (9227469 / 8388608)))),
         vec_y = coordinate (fsub (Finite (vec_y (paint_position examplePaintEdit)))
                               (fmul (Finite (paint_radius examplePaintEdit)) (Finite (9227469 / 8388608)))),
         vec_z = coordinate (fsub (Finite (vec_z (paint_position examplePaintEdit)))
                               (fmul (Finite (paint_radius examplePaintEdit)) (Finite (9227469 / 8388608))))\<rparr>,
      maximum =
        \<lparr>vec_x = coordinate (fadd (Finite (vec_x (paint_position examplePaintEdit)))
                               (fmul (Finite (paint_radius examplePaintEdit)) (Finite (9227469 / 8388608)))),
         vec_y = coordinate (fadd (Finite (vec_y (paint_position examplePaintEdit)))
                               (fmul (Finite (paint_radius examplePaintEdit)) (Finite (9227469 / 8388608)))),
         vec_z = coordinate (fadd (Finite (vec_z (paint_position examplePaintEdit)))
                               (fmul (Finite (paint_radius examplePaintEdit)) (Finite (9227469 / 8388608))))\<rparr>\<rparr>"
    by (elim conjE)
  then have qbox: "paintQueryBox examplePaintEdit =
     \<lparr>minimum = vec3_splat (- (5033165 / 8388608)), maximum = vec3_splat (13421773 / 8388608)\<rparr>"
    by (simp add: examplePaintEdit_def vec3_splat_def fsub_def round32_paint_values)
  from inst hyp
  obtain d' where "PaintHeightfieldHeightEdit_apply exampleRegistry exampleSpanners examplePaintEdit
        examplePaintData = Some d'"
    and "spannerCollection d' (getSpannersAttribute exampleRegistry) =
            map (\<lambda>s. if Box_intersects (getBounds exampleSpanners s) (paintQueryBox examplePaintEdit)
                      then paintedInstance exampleSpanners examplePaintEdit s else s)
              (spannerCollection examplePaintData (getSpannersAttribute exampleRegistry))"
    by blast
  then have "\<exists>d'. PaintHeightfieldHeightEdit_apply exampleRegistry exampleSpanners examplePaintEdit
        examplePaintData = Some d' \<and>
        spannerCollection examplePaintData spannersAttribute = [7, 3] \<and>
        spannerCollection d' spannersAttribute = [8, 3]"
    using coll by (auto simp: box f exampleRegistry_def)
  moreover have "paintQueryBox hugePaintEdit =
     \<lparr>minimum = vec3_splat (- (2 ^ 128)), maximum = vec3_splat (2 ^ 128)\<rparr>"
  proof -
    have "round32 (340282346638528859811704183484516925440 * (9227469 / 8388608)) = PlusInfinity"
      by (rule round32_overflow) simp
    then have product: "fmul (Finite (paint_radius hugePaintEdit)) (Finite (9227469 / 8388608)) = PlusInfinity"
      by (simp add: hugePaintEdit_def)
    from PaintHeightfieldHeightEdit_apply_replaces[of exampleRegistry exampleSpanners hugePaintEdit
        examplePaintData "1 / 2" 7 examplePaintData]
    have "paintQueryBox hugePaintEdit =
     \<lparr>minimum =
        \<lparr>vec_x = coordinate (fsub (Finite (vec_x (paint_position hugePaintEdit)))
                               (fmul (Finite (paint_radius hugePaintEdit)) (Finite (9227469 / 8388608)))),
         vec_y = coordinate (fsub (Finite (vec_y (paint_position hugePaintEdit)))
                               (fmul (Finite (paint_radius hugePaintEdit)) (Finite (9227469 / 8388608)))),
         vec_z = coordinate (fsub (Finite (vec_z (paint_position hugePaintEdit)))
                               (fmul (Finite (paint_radius hugePaintEdit)) (Finite (9227469 / 8388608))))\<rparr>,
      maximum =
        \<lparr>vec_x = coordinate (fadd (Finite (vec_x (paint_position hugePaintEdit)))
                               (fmul (Finite (paint_radius hugePaintEdit)) (Finite (9227469 / 8388608)))),
         vec_y = coordinate (fadd (Finite (vec_y (paint_position hugePaintEdit)))
                               (fmul (Finite (paint_radius hugePaintEdit)) (Finite (9227469 / 8388608)))),
         vec_z = coordinate (fadd (Finite (vec_z (paint_position hugePaintEdit)))
                               (fmul (Finite (paint_radius hugePaintEdit)) (Finite (9227469 / 8388608))))\<rparr>\<rparr>"
      by (elim conjE)
    then show ?thesis
      unfolding product by (simp add: fsub_def vec3_splat_def)
  qed
  ultimately show ?thesis using qbox by blast
qed

text \<open>
  For the radius 1 and a position whose x coordinate is the value of \<open>1.1f\<close> the
  program's box starts at x = 0 (the difference of two equal floats), where the box
  \<open>position - radius * 1.1\<close> starts at x = 1/41943040. Spanner 5 ends at x = 2^-27,
  between the two: it does not intersect the stated box, and the program queries and
  replaces it.
\<close>

theorem PaintHeightfieldHeightEdit_apply_claimed_counterexample:
  "vec_x (minimum (paintQueryBox edgePaintEdit)) = 0 \<and>
   vec_x (minimum (claimedPaintQueryBox edgePaintEdit)) = 1 / 41943040 \<and>
   \<not> Box_intersects (getBounds edgeSpanners 5) (claimedPaintQueryBox edgePaintEdit) \<and>
   MetavoxelData_getIntersecting edgeSpanners spannersAttribute (paintQueryBox edgePaintEdit) edgePaintData = [5] \<and>
   MetavoxelData_getIntersecting edgeSpanners spannersAttribute (claimedPaintQueryBox edgePaintEdit)
     edgePaintData = [] \<and>
   spannerCollection edgePaintData spannersAttribute = [5] \<and>
   PaintHeightfieldHeightEdit_apply exampleRegistry edgeSpanners edgePaintEdit edgePaintData =
     Some (edgePaintData\<lparr>spannerCollection := (spannerCollection edgePaintData)(spannersAttribute := [6])\<rparr>)"
proof -
  have bounds5: "getBounds edgeSpanners 5 = edgeBox"
    by (simp add: edgeSpanners_def exampleSpanners_def)
  have coll: "spannerCollection edgePaintData spannersAttribute = [5]"
    by (simp add: edgePaintData_def)
  have no: "\<not> Box_intersects (getBounds edgeSpanners 5) (claimedPaintQueryBox edgePaintEdit)"
    by (simp add: bounds5 edgeBox_def edgePaintEdit_claimed_box Box_intersects_def)
  have yes: "Box_intersects (getBounds edgeSpanners 5) (paintQueryBox edgePaintEdit)"
    by (simp add: bounds5 edgeBox_def edgePaintEdit_box Box_intersects_def)
  have query: "MetavoxelData_getIntersecting edgeSpanners spannersAttribute (paintQueryBox edgePaintEdit)
      edgePaintData = [5]"
    using yes by (simp add: MetavoxelData_getIntersecting_def coll)
  have claimed: "MetavoxelData_getIntersecting edgeSpanners spannersAttribute (claimedPaintQueryBox edgePaintEdit)
      edgePaintData = []"
    using no by (simp add: MetavoxelData_getIntersecting_def coll)
  have painted: "paintHeight edgeSpanners 5 (paint_position edgePaintEdit) (paint_radius edgePaintEdit)
      (paint_height edgePaintEdit) = 6"
    by (simp add: edgeSpanners_def exampleSpanners_def)
  have run: "PaintHeightfieldHeightEdit_apply exampleRegistry edgeSpanners edgePaintEdit edgePaintData =
     Some (edgePaintData\<lparr>spannerCollection := (spannerCollection edgePaintData)(spannersAttribute := [6])\<rparr>)"
    by (simp add: PaintHeightfieldHeightEdit_apply_def exampleRegistry_def query paintStep_def painted
        MetavoxelData_replace_def coll)
  from no query claimed run coll show ?thesis
    by (simp add: edgePaintEdit_box edgePaintEdit_claimed_box)
qed

end
